theory Spec2Isabelle
  imports Main "HOL-Library.AList"
begin

section \<open>The catalog generator \<^verbatim>\<open>scripts/update-mod-source-data/index.js\<close>\<close>

text \<open>
  The script reads a configuration of mods and texture packs, lists the releases of every
  repository, reads the \<^verbatim>\<open>metadata.json\<close> asset of each release and assembles one catalog
  document, which it writes when it differs from the one on disk.

  The embedding is shallow. A JavaScript object whose shape the script fixes is a record,
  an object used as a dictionary is an association list in insertion order, a property that
  may be absent, \<^verbatim>\<open>undefined\<close> or \<^verbatim>\<open>null\<close> is an option. \<^verbatim>\<open>exit(1)\<close> and an uncaught exception
  are the two constructors of \<open>error\<close>; every statement that can end the process returns
  \<open>Inl\<close>. The console is a list of lines carried through the run. The network, the clock
  and \<^verbatim>\<open>Date.parse\<close> are parameters, collected in the record \<open>world\<close>.
\<close>

subsection \<open>Strings\<close>

text \<open>
  Strings are lists of 8-bit characters, read as the code units below 256; text with
  other code units is outside the model. \<open>toLowerCase\<close> folds the letters A to Z and the
  accented capitals from \<^verbatim>\<open>U+00C0\<close> to \<^verbatim>\<open>U+00DE\<close> (the multiplication sign apart), as JavaScript
  does on these code units.
\<close>

definition startsWith :: "string \<Rightarrow> string \<Rightarrow> bool" where
  "startsWith s p = (take (length p) s = p)"

definition substring :: "string \<Rightarrow> nat \<Rightarrow> string" where
  "substring s n = drop n s"

definition upper_chars :: string where
  "upper_chars =
     ''ABCDEFGHIJKLMNOPQRSTUVWXYZ''
     @ [CHR 0xC0, CHR 0xC1, CHR 0xC2, CHR 0xC3, CHR 0xC4, CHR 0xC5, CHR 0xC6, CHR 0xC7,
        CHR 0xC8, CHR 0xC9, CHR 0xCA, CHR 0xCB, CHR 0xCC, CHR 0xCD, CHR 0xCE, CHR 0xCF,
        CHR 0xD0, CHR 0xD1, CHR 0xD2, CHR 0xD3, CHR 0xD4, CHR 0xD5, CHR 0xD6, CHR 0xD8,
        CHR 0xD9, CHR 0xDA, CHR 0xDB, CHR 0xDC, CHR 0xDD, CHR 0xDE]"

definition lower_chars :: string where
  "lower_chars =
     ''abcdefghijklmnopqrstuvwxyz''
     @ [CHR 0xE0, CHR 0xE1, CHR 0xE2, CHR 0xE3, CHR 0xE4, CHR 0xE5, CHR 0xE6, CHR 0xE7,
        CHR 0xE8, CHR 0xE9, CHR 0xEA, CHR 0xEB, CHR 0xEC, CHR 0xED, CHR 0xEE, CHR 0xEF,
        CHR 0xF0, CHR 0xF1, CHR 0xF2, CHR 0xF3, CHR 0xF4, CHR 0xF5, CHR 0xF6, CHR 0xF8,
        CHR 0xF9, CHR 0xFA, CHR 0xFB, CHR 0xFC, CHR 0xFD, CHR 0xFE]"

definition lower_char :: "char \<Rightarrow> char" where
  "lower_char c = (case map_of (zip upper_chars lower_chars) c of None \<Rightarrow> c | Some l \<Rightarrow> l)"

definition toLowerCase :: "string \<Rightarrow> string" where
  "toLowerCase s = map lower_char s"

fun split_on :: "char \<Rightarrow> string \<Rightarrow> string list" where
  "split_on c [] = [[]]"
| "split_on c (x # xs) =
     (if x = c then [] # split_on c xs
      else (case split_on c xs of
              [] \<Rightarrow> [[x]]
            | f # fs \<Rightarrow> (x # f) # fs))"

definition cut :: "char \<Rightarrow> string \<Rightarrow> string \<times> string option" where
  "cut c s =
     (takeWhile (\<lambda>x. x \<noteq> c) s,
      case dropWhile (\<lambda>x. x \<noteq> c) s of [] \<Rightarrow> None | _ # r \<Rightarrow> Some r)"

subsection \<open>Process termination and the console\<close>

datatype error =
    ExitWithError string
  | Uncaught string

datatype line =
    Log string
  | Error string

subsection \<open>The \<^verbatim>\<open>semver\<close> package\<close>

text \<open>
  The script imports \<^verbatim>\<open>semver\<close> and calls \<^verbatim>\<open>valid\<close>, \<^verbatim>\<open>lt\<close> and \<^verbatim>\<open>eq\<close> with no options. The
  package is a dependency; its version 7.7.2 is modelled here, function by function:
  the constructor of \<^verbatim>\<open>classes/semver.js\<close> (the limit of 256 characters on the text as
  given, \<^verbatim>\<open>trim\<close>, the expression \<^verbatim>\<open>FULL\<close> of \<^verbatim>\<open>internal/re.js\<close>, the limit
  \<^verbatim>\<open>MAX_SAFE_INTEGER\<close> on the three components, the numeric prerelease identifiers turned
  into numbers), \<^verbatim>\<open>compare\<close>, \<^verbatim>\<open>compareMain\<close>, \<^verbatim>\<open>comparePre\<close>, and \<^verbatim>\<open>compareIdentifiers\<close> of
  \<^verbatim>\<open>internal/identifiers.js\<close>. An exception of the constructor is \<open>Inl\<close> with its message.

  A number of JavaScript is a double; the numbers met here are integers that are not
  negative. \<open>to_number\<close> is the unary plus on a text of digits: the double nearest to the
  value, ties to the even mantissa, given as the integer it denotes. A version has at most 256 characters, so no value is large enough to become
  infinite. The bounded repetitions that \<^verbatim>\<open>internal/re.js\<close> puts in place of \<^verbatim>\<open>*\<close> and \<^verbatim>\<open>+\<close>
  (256 digits, 250 characters of an identifier) hold for every text of at most 256
  characters and need no test of their own. \<^verbatim>\<open>trim\<close> removes the white space and the line
  terminators of JavaScript, which below 256 are the tab, the line feed, the vertical tab,
  the form feed, the carriage return, the space and the no-break space.
\<close>

datatype ident =
    Numeric int
  | Alphanum string

datatype semver = SemVer (major: int) (minor: int) (patch: int) (prerelease: "ident list")

datatype cmp = Lt | Eq | Gt

definition MAX_LENGTH :: nat where
  "MAX_LENGTH = 256"

definition MAX_SAFE_INTEGER :: int where
  "MAX_SAFE_INTEGER = 9007199254740991"

definition is_space :: "char \<Rightarrow> bool" where
  "is_space c =
     (c \<in> set [CHR 0x09, CHR 0x0A, CHR 0x0B, CHR 0x0C, CHR 0x0D, CHR 0x20, CHR 0xA0])"

definition trim :: "string \<Rightarrow> string" where
  "trim s = rev (dropWhile is_space (rev (dropWhile is_space s)))"

definition is_digit :: "char \<Rightarrow> bool" where
  "is_digit c = (c \<in> set ''0123456789'')"

definition is_ident_char :: "char \<Rightarrow> bool" where
  "is_ident_char c =
     (c \<in> set ''0123456789ABCDEFGHIJKLMNOPQRSTUVWXYZabcdefghijklmnopqrstuvwxyz-'')"

definition digit_val :: "char \<Rightarrow> int" where
  "digit_val c = of_char c - 48"

definition parse_nat :: "string \<Rightarrow> int" where
  "parse_nat s = foldl (\<lambda>n c. 10 * n + digit_val c) 0 s"

function bit_length :: "int \<Rightarrow> nat" where
  "bit_length n = (if n \<le> 0 then 0 else Suc (bit_length (n div 2)))"
  by pat_completeness auto
termination
  by (relation "measure nat") auto

definition to_number :: "int \<Rightarrow> int" where
  "to_number n =
     (if bit_length n \<le> 53 then n
      else (let e = bit_length n - 53;
                q = n div 2 ^ e;
                r = n mod 2 ^ e
            in (if 2 ^ e < 2 * r \<or> (2 * r = 2 ^ e \<and> q mod 2 = 1) then q + 1 else q)
               * 2 ^ e))"

text \<open>
  The expression \<^verbatim>\<open>FULL\<close>, anchored at both ends: an optional \<^verbatim>\<open>v\<close>, three numeric
  identifiers (\<^verbatim>\<open>0|[1-9]\d*\<close>) separated by dots, an optional prerelease after \<^verbatim>\<open>-\<close> and
  optional build metadata after \<^verbatim>\<open>+\<close>, both lists of identifiers separated by dots. The
  result is the five groups of the match. The three components hold neither \<^verbatim>\<open>-\<close> nor \<^verbatim>\<open>+\<close>
  and a prerelease holds no \<^verbatim>\<open>+\<close>, so the groups are found by cutting at the first \<^verbatim>\<open>+\<close> and
  then at the first \<^verbatim>\<open>-\<close> before it.
\<close>

definition numeric_ident :: "string \<Rightarrow> bool" where
  "numeric_ident s = (s \<noteq> [] \<and> list_all is_digit s \<and> (s = ''0'' \<or> hd s \<noteq> CHR ''0''))"

definition prerelease_ident :: "string \<Rightarrow> bool" where
  "prerelease_ident s =
     (s \<noteq> [] \<and> list_all is_ident_char s \<and> (list_all is_digit s \<longrightarrow> numeric_ident s))"

definition build_ident :: "string \<Rightarrow> bool" where
  "build_ident s = (s \<noteq> [] \<and> list_all is_ident_char s)"

definition match_FULL ::
  "string \<Rightarrow> (string \<times> string \<times> string \<times> string option \<times> string option) option" where
  "match_FULL s =
     (let s1 = (if startsWith s ''v'' then substring s 1 else s);
          (s2, build) = cut CHR ''+'' s1;
          (core, pre) = cut CHR ''-'' s2
      in if (case build of None \<Rightarrow> True
                         | Some b \<Rightarrow> list_all build_ident (split_on CHR ''.'' b))
          \<and> (case pre of None \<Rightarrow> True
                        | Some p \<Rightarrow> list_all prerelease_ident (split_on CHR ''.'' p))
         then (case split_on CHR ''.'' core of
                 [m1, m2, m3] \<Rightarrow>
                   if numeric_ident m1 \<and> numeric_ident m2 \<and> numeric_ident m3
                   then Some (m1, m2, m3, pre, build)
                   else None
               | _ \<Rightarrow> None)
         else None)"

text \<open>Lines 62 to 75 of the constructor: a numeric identifier below the limit is a number.\<close>

definition to_ident :: "string \<Rightarrow> ident" where
  "to_ident id' =
     (if id' \<noteq> [] \<and> list_all is_digit id' \<and> to_number (parse_nat id') < MAX_SAFE_INTEGER
      then Numeric (to_number (parse_nat id'))
      else Alphanum id')"

definition SemVer_new :: "string \<Rightarrow> string + semver" where
  "SemVer_new version =
     (if MAX_LENGTH < length version then Inl ''version is longer than 256 characters''
      else
        (case match_FULL (trim version) of
           None \<Rightarrow> Inl (''Invalid Version: '' @ version)
         | Some (m1, m2, m3, m4, m5) \<Rightarrow>
             if MAX_SAFE_INTEGER < to_number (parse_nat m1) then Inl ''Invalid major version''
             else if MAX_SAFE_INTEGER < to_number (parse_nat m2) then
               Inl ''Invalid minor version''
             else if MAX_SAFE_INTEGER < to_number (parse_nat m3) then
               Inl ''Invalid patch version''
             else
               Inr (SemVer (to_number (parse_nat m1)) (to_number (parse_nat m2))
                      (to_number (parse_nat m3))
                      (case m4 of
                         None \<Rightarrow> []
                       | Some p \<Rightarrow> map to_ident (split_on CHR ''.'' p)))))"

text \<open>
  \<^verbatim>\<open>compareIdentifiers\<close>: two identifiers that both read as digits are compared as numbers,
  a text of digits through \<open>to_number\<close>; else equal ones are equal, digits come before
  anything else, and two texts compare by their code units.
\<close>

fun str_less :: "string \<Rightarrow> string \<Rightarrow> bool" where
  "str_less [] [] = False"
| "str_less [] (y # ys) = True"
| "str_less (x # xs) [] = False"
| "str_less (x # xs) (y # ys) =
     ((of_char x :: nat) < of_char y \<or> (x = y \<and> str_less xs ys))"

definition compare_number :: "int \<Rightarrow> int \<Rightarrow> cmp" where
  "compare_number a b = (if a = b then Eq else if a < b then Lt else Gt)"

definition ident_numeric :: "ident \<Rightarrow> bool" where
  "ident_numeric a =
     (case a of Numeric _ \<Rightarrow> True | Alphanum s \<Rightarrow> s \<noteq> [] \<and> list_all is_digit s)"

definition ident_number :: "ident \<Rightarrow> int" where
  "ident_number a = (case a of Numeric n \<Rightarrow> n | Alphanum s \<Rightarrow> to_number (parse_nat s))"

definition ident_less :: "ident \<Rightarrow> ident \<Rightarrow> bool" where
  "ident_less a b =
     (case a of
        Numeric _ \<Rightarrow> False
      | Alphanum x \<Rightarrow> (case b of Numeric _ \<Rightarrow> False | Alphanum y \<Rightarrow> str_less x y))"

definition compareIdentifiers :: "ident \<Rightarrow> ident \<Rightarrow> cmp" where
  "compareIdentifiers a b =
     (if ident_numeric a \<and> ident_numeric b then compare_number (ident_number a) (ident_number b)
      else if a = b then Eq
      else if ident_numeric a \<and> \<not> ident_numeric b then Lt
      else if ident_numeric b \<and> \<not> ident_numeric a then Gt
      else if ident_less a b then Lt
      else Gt)"

text \<open>
  \<^verbatim>\<open>comparePre\<close>: the loop goes on while the two identifiers are identical and returns the
  comparison of the first pair that is not, which is 0 for two texts of digits that round
  to the same number.
\<close>

fun compare_idents :: "ident list \<Rightarrow> ident list \<Rightarrow> cmp" where
  "compare_idents [] [] = Eq"
| "compare_idents (a # as) [] = Gt"
| "compare_idents [] (b # bs) = Lt"
| "compare_idents (a # as) (b # bs) =
     (if a = b then compare_idents as bs else compareIdentifiers a b)"

definition comparePre :: "ident list \<Rightarrow> ident list \<Rightarrow> cmp" where
  "comparePre p q =
     (if p \<noteq> [] \<and> q = [] then Lt
      else if p = [] \<and> q \<noteq> [] then Gt
      else if p = [] \<and> q = [] then Eq
      else compare_idents p q)"

definition compareMain :: "semver \<Rightarrow> semver \<Rightarrow> cmp" where
  "compareMain a b =
     (case compare_number (major a) (major b) of
        Eq \<Rightarrow> (case compare_number (minor a) (minor b) of
                 Eq \<Rightarrow> compare_number (patch a) (patch b)
               | c \<Rightarrow> c)
      | c \<Rightarrow> c)"

text \<open>
  \<^verbatim>\<open>compare\<close>. The method first returns 0 when the two formatted versions are the same
  text; two versions print the same text only when their components and identifiers are
  identical, and then the two comparisons below give 0 as well.
\<close>

definition compare :: "semver \<Rightarrow> semver \<Rightarrow> cmp" where
  "compare a b =
     (case compareMain a b of
        Eq \<Rightarrow> comparePre (prerelease a) (prerelease b)
      | c \<Rightarrow> c)"

text \<open>
  \<^verbatim>\<open>functions/valid.js\<close>, \<^verbatim>\<open>functions/compare.js\<close>, \<^verbatim>\<open>functions/lt.js\<close> and
  \<^verbatim>\<open>functions/eq.js\<close>: \<^verbatim>\<open>valid\<close> catches the exception of the constructor, the comparisons
  construct the first argument, then the second, and let the exception through.
\<close>

definition semver_valid :: "string \<Rightarrow> bool" where
  "semver_valid version = (case SemVer_new version of Inl _ \<Rightarrow> False | Inr _ \<Rightarrow> True)"

definition semver_compare :: "string \<Rightarrow> string \<Rightarrow> string + cmp" where
  "semver_compare a b =
     (case SemVer_new a of
        Inl e \<Rightarrow> Inl e
      | Inr x \<Rightarrow> (case SemVer_new b of
                    Inl e \<Rightarrow> Inl e
                  | Inr y \<Rightarrow> Inr (compare x y)))"

definition semver_lt :: "string \<Rightarrow> string \<Rightarrow> string + bool" where
  "semver_lt a b = (case semver_compare a b of Inl e \<Rightarrow> Inl e | Inr c \<Rightarrow> Inr (c = Lt))"

definition semver_eq :: "string \<Rightarrow> string \<Rightarrow> string + bool" where
  "semver_eq a b = (case semver_compare a b of Inl e \<Rightarrow> Inl e | Inr c \<Rightarrow> Inr (c = Eq))"

subsection \<open>JavaScript values\<close>

text \<open>
  Values whose shape the script does not fix (the \<^verbatim>\<open>settings\<close> of a release, the documents
  compared and written at the end) are JSON values, with \<^verbatim>\<open>undefined\<close> added. An object
  is an association list in insertion order; keys that are array indices, which JavaScript
  enumerates first, are outside the model.
\<close>

datatype json =
    JUndefined
  | JNull
  | JBool bool
  | JNum int
  | JStr string
  | JArr "json list"
  | JObj "(string \<times> json) list"

definition apostrophe :: string where
  "apostrophe = [CHR 0x27]"

definition get_prop :: "json \<Rightarrow> string \<Rightarrow> error + json" where
  "get_prop v k =
     (case v of
        JUndefined \<Rightarrow>
          Inl (Uncaught (''TypeError: Cannot read properties of undefined (reading ''
                 @ apostrophe @ k @ apostrophe @ '')''))
      | JNull \<Rightarrow>
          Inl (Uncaught (''TypeError: Cannot read properties of null (reading ''
                 @ apostrophe @ k @ apostrophe @ '')''))
      | JObj kvs \<Rightarrow> Inr (case map_of kvs k of None \<Rightarrow> JUndefined | Some x \<Rightarrow> x)
      | _ \<Rightarrow> Inr JUndefined)"

definition set_prop :: "json \<Rightarrow> string \<Rightarrow> json \<Rightarrow> json" where
  "set_prop v k x = (case v of JObj kvs \<Rightarrow> JObj (AList.update k x kvs) | _ \<Rightarrow> v)"

definition delete_prop :: "json \<Rightarrow> string \<Rightarrow> json" where
  "delete_prop v k = (case v of JObj kvs \<Rightarrow> JObj (AList.delete k kvs) | _ \<Rightarrow> v)"

subsection \<open>The configuration\<close>

text \<open>
  \<^verbatim>\<open>config.yaml\<close> after \<^verbatim>\<open>YAML.parse\<close>. A field is \<open>None\<close> when the key is absent, so
  \<^verbatim>\<open>Object.keys(modInfo).includes("k")\<close> is \<open>k modInfo \<noteq> None\<close>. Values have the types of
  the documented schema; a configuration with a value of another type is outside the
  model. Texture-pack entries have the same fields.
\<close>

record per_game_entry =
  pg_cover_art_url :: "string option"
  pg_thumbnail_art_url :: "string option"
  pg_release_date_override :: "string option"

record mod_entry =
  display_name :: "string option"
  description :: "string option"
  authors :: "string list option"
  tags :: "string list option"
  website_url :: "string option"
  external_link :: "string option"
  supported_games :: "string list option"
  repo_owner :: "string option"
  repo_name :: "string option"
  ignore_versions :: "string list option"
  release_date_override :: "string option"
  cover_art_url :: "string option"
  thumbnail_art_url :: "string option"
  per_game_config :: "(string \<times> per_game_entry) list option"

record metadata_section =
  metadata_name :: "string option"

record config =
  metadata :: "metadata_section option"
  mods :: "(string \<times> mod_entry) list option"
  texture_packs :: "(string \<times> mod_entry) list option"

datatype config_file =
    Missing
  | Unparseable string
  | Parsed config

subsection \<open>Releases, the network and the clock\<close>

record asset =
  name :: string
  browser_download_url :: string
  download_count :: int

record release =
  tag_name :: string
  published_at :: string
  assets :: "asset list"

text \<open>
  The body of a fetched \<^verbatim>\<open>metadata.json\<close>: \<open>Inl e\<close> when reading or parsing it throws \<open>e\<close>,
  else the parsed document with its two optional keys.
\<close>

record metadata_doc =
  md_settings :: "json option"
  md_supportedGames :: "string list option"

record response =
  status :: nat
  body :: "string + metadata_doc"

text \<open>
  \<open>listReleases\<close> is \<^verbatim>\<open>octokit.paginate\<close> on the release list of a repository, \<open>fetch\<close> the
  global \<^verbatim>\<open>fetch\<close>; both can throw. \<open>Date_parse\<close> is \<^verbatim>\<open>Date.parse\<close>, with \<open>None\<close> for
  \<^verbatim>\<open>NaN\<close>. \<open>now\<close> is \<^verbatim>\<open>(new Date()).toISOString()\<close>.
\<close>

record world =
  listReleases :: "string \<Rightarrow> string \<Rightarrow> error + release list"
  fetch :: "string \<Rightarrow> error + response"
  Date_parse :: "string \<Rightarrow> int option"
  now :: string

definition num_gt :: "int option \<Rightarrow> int option \<Rightarrow> bool" where
  "num_gt a b = (case a of None \<Rightarrow> False
                 | Some x \<Rightarrow> (case b of None \<Rightarrow> False | Some y \<Rightarrow> x > y))"

subsection \<open>The catalog\<close>

record 'a platforms =
  windows :: 'a
  linux :: 'a
  macos :: 'a

record version_info =
  version :: string
  publishedDate :: string
  v_supportedGames :: "string list"
  settings :: json
  v_assets :: "string option platforms"
  assetDownloadCounts :: "int platforms"

record per_game_info =
  g_coverArtUrl :: "string option"
  g_thumbnailArtUrl :: "string option"
  releaseDate :: "string option"

record mod_source_info =
  displayName :: "string option"
  m_description :: "string option"
  m_authors :: "string list option"
  m_tags :: "string list option"
  websiteUrl :: "string option"
  supportedGames :: "string list"
  versions :: "version_info list"
  coverArtUrl :: "string option"
  thumbnailArtUrl :: "string option"
  perGameConfig :: "(string \<times> per_game_info) list"
  externalLink :: "string option"

record texture_pack_info =
  t_displayName :: "string option"
  t_description :: "string option"
  t_authors :: "string list option"
  t_tags :: "string list option"
  t_websiteUrl :: "string option"
  t_versions :: "json list"
  t_thumbnailArtUrl :: "string option"
  t_perGameConfig :: "(string \<times> per_game_entry) list option"

record mod_source_data =
  schemaVersion :: string
  sourceName :: string
  d_mods :: "(string \<times> mod_source_info) list"
  texturePacks :: "(string \<times> texture_pack_info) list"

subsection \<open>Start-up: arguments and required keys\<close>

text \<open>
  Lines 9 to 14: \<^verbatim>\<open>lintMode\<close> starts false; with at least one argument it becomes the
  comparison of the first one with \<^verbatim>\<open>"lint"\<close>, and the message is printed in either case.
\<close>

definition parse_args :: "string list \<Rightarrow> bool \<times> line list" where
  "parse_args args =
     (case args of
        [] \<Rightarrow> (False, [])
      | a # _ \<Rightarrow> (a = ''lint'', [Log ''lint mode enabled'']))"

fun validateJsonKeys :: "string list \<Rightarrow> string list \<Rightarrow> string \<Rightarrow> bool \<times> line list" where
  "validateJsonKeys [] keys messagePrefix = (True, [])"
| "validateJsonKeys (key # keysToCheck) keys messagePrefix =
     (if key \<notin> set keys then (False, [Error (messagePrefix @ '': missing '' @ key)])
      else validateJsonKeys keysToCheck keys messagePrefix)"

definition key_if :: "string \<Rightarrow> 'a option \<Rightarrow> string list" where
  "key_if k v = (case v of None \<Rightarrow> [] | Some _ \<Rightarrow> [k])"

definition object_keys :: "mod_entry \<Rightarrow> string list" where
  "object_keys modInfo =
     key_if ''display_name'' (display_name modInfo)
     @ key_if ''description'' (description modInfo)
     @ key_if ''authors'' (authors modInfo)
     @ key_if ''tags'' (tags modInfo)
     @ key_if ''website_url'' (website_url modInfo)
     @ key_if ''external_link'' (external_link modInfo)
     @ key_if ''supported_games'' (supported_games modInfo)
     @ key_if ''repo_owner'' (repo_owner modInfo)
     @ key_if ''repo_name'' (repo_name modInfo)
     @ key_if ''ignore_versions'' (ignore_versions modInfo)
     @ key_if ''release_date_override'' (release_date_override modInfo)
     @ key_if ''cover_art_url'' (cover_art_url modInfo)
     @ key_if ''thumbnail_art_url'' (thumbnail_art_url modInfo)
     @ key_if ''per_game_config'' (per_game_config modInfo)"

definition falsy :: "string option \<Rightarrow> bool" where
  "falsy v = (case v of None \<Rightarrow> True | Some s \<Rightarrow> s = [])"

definition template :: "string option \<Rightarrow> string" where
  "template v = (case v of None \<Rightarrow> ''undefined'' | Some s \<Rightarrow> s)"

subsection \<open>One release of a mod\<close>

text \<open>Lines 157 to 160: the tag without one leading \<^verbatim>\<open>v\<close>.\<close>

definition clean_tag :: "string \<Rightarrow> string" where
  "clean_tag tag = (if startsWith tag ''v'' then substring tag 1 else tag)"

text \<open>
  Lines 167 to 181: the loop over \<^verbatim>\<open>ignore_versions\<close>. The result is the line logged when a
  rule matches (\<^verbatim>\<open>skipIt\<close> is then true and the loop is left), \<open>None\<close> when the loop runs to its
  end, and the exception of \<^verbatim>\<open>semver\<close> when it meets a rule that is no version.
\<close>

fun ignore_loop :: "string \<Rightarrow> string \<Rightarrow> string list \<Rightarrow> error + string option" where
  "ignore_loop modName cleaned_release_tag [] = Inr None"
| "ignore_loop modName cleaned_release_tag (ignore_version # rest) =
     (if startsWith ignore_version ''<'' then
        (let cleaned_ignore_version = substring ignore_version 1 in
         (case semver_lt cleaned_release_tag cleaned_ignore_version of
            Inl e \<Rightarrow> Inl (Uncaught (''TypeError: '' @ e))
          | Inr True \<Rightarrow>
              Inr (Some (''ignoring release - '' @ modName @ '':'' @ cleaned_release_tag))
          | Inr False \<Rightarrow> ignore_loop modName cleaned_release_tag rest))
      else
        (case semver_eq ignore_version cleaned_release_tag of
           Inl e \<Rightarrow> Inl (Uncaught (''TypeError: '' @ e))
         | Inr True \<Rightarrow> Inr (Some (''ignoring release - '' @ modName @ '':'' @ ignore_version))
         | Inr False \<Rightarrow> ignore_loop modName cleaned_release_tag rest))"

text \<open>Lines 186 to 204: the version object before the assets are read.\<close>

definition default_settings :: json where
  "default_settings =
     JObj [(''decompConfigOverride'', JStr []), (''shareVanillaSaves'', JBool False)]"

definition newVersion :: "string \<Rightarrow> release \<Rightarrow> version_info" where
  "newVersion cleaned_release_tag release =
     \<lparr>version = cleaned_release_tag,
      publishedDate = published_at release,
      v_supportedGames = [],
      settings = default_settings,
      v_assets = \<lparr>windows = None, linux = None, macos = None\<rparr>,
      assetDownloadCounts = \<lparr>windows = 0, linux = 0, macos = 0\<rparr>\<rparr>"

text \<open>
  Lines 206 to 220: one pass over the assets; the state is the version object and
  \<^verbatim>\<open>metadataFileUrl\<close>. Every asset that matches a branch assigns, there is no \<^verbatim>\<open>break\<close>.
\<close>

definition classify_asset ::
  "version_info \<times> string option \<Rightarrow> asset \<Rightarrow> version_info \<times> string option" where
  "classify_asset st asset =
     (case st of (nv, metadataFileUrl) \<Rightarrow>
        if startsWith (toLowerCase (name asset)) ''windows-'' then
          (nv\<lparr>v_assets := (v_assets nv)\<lparr>windows := Some (browser_download_url asset)\<rparr>,
              assetDownloadCounts :=
                (assetDownloadCounts nv)\<lparr>windows := download_count asset\<rparr>\<rparr>,
           metadataFileUrl)
        else if startsWith (toLowerCase (name asset)) ''linux-'' then
          (nv\<lparr>v_assets := (v_assets nv)\<lparr>linux := Some (browser_download_url asset)\<rparr>,
              assetDownloadCounts :=
                (assetDownloadCounts nv)\<lparr>linux := download_count asset\<rparr>\<rparr>,
           metadataFileUrl)
        else if startsWith (toLowerCase (name asset)) ''macos-'' then
          (nv\<lparr>v_assets := (v_assets nv)\<lparr>macos := Some (browser_download_url asset)\<rparr>,
              assetDownloadCounts :=
                (assetDownloadCounts nv)\<lparr>macos := download_count asset\<rparr>\<rparr>,
           metadataFileUrl)
        else if toLowerCase (name asset) = ''metadata.json'' then
          (nv, Some (browser_download_url asset))
        else (nv, metadataFileUrl))"

definition asset_loop :: "version_info \<Rightarrow> asset list \<Rightarrow> version_info \<times> string option" where
  "asset_loop nv as = foldl classify_asset (nv, None) as"

text \<open>Lines 235 to 239: the games of the release join the games of the mod.\<close>

definition push_game :: "string list \<Rightarrow> string \<Rightarrow> string list" where
  "push_game games supportedGame =
     (if supportedGame \<notin> set games then games @ [supportedGame] else games)"

text \<open>
  Lines 242 to 259, for one game: the entry of the game is created when missing, then its
  release date is set from the override of the mod, else from the override of the game,
  else from the published date when none is stored or the stored one parses to a later
  time.
\<close>

definition empty_game :: per_game_info where
  "empty_game = \<lparr>g_coverArtUrl = None, g_thumbnailArtUrl = None, releaseDate = None\<rparr>"

definition game_override :: "mod_entry \<Rightarrow> string \<Rightarrow> string option" where
  "game_override modInfo supportedGame =
     (case per_game_config modInfo of
        None \<Rightarrow> None
      | Some cfg \<Rightarrow> (case map_of cfg supportedGame of
                      None \<Rightarrow> None
                    | Some e \<Rightarrow> pg_release_date_override e))"

definition set_release_date ::
  "world \<Rightarrow> mod_entry \<Rightarrow> string \<Rightarrow> string \<Rightarrow> per_game_info \<Rightarrow> per_game_info" where
  "set_release_date w modInfo published supportedGame g =
     (case release_date_override modInfo of
        Some d \<Rightarrow> g\<lparr>releaseDate := Some d\<rparr>
      | None \<Rightarrow>
          (case game_override modInfo supportedGame of
             Some d \<Rightarrow> g\<lparr>releaseDate := Some d\<rparr>
           | None \<Rightarrow>
               (case releaseDate g of
                  None \<Rightarrow> g\<lparr>releaseDate := Some published\<rparr>
                | Some stored \<Rightarrow>
                    if num_gt (Date_parse w stored) (Date_parse w published)
                    then g\<lparr>releaseDate := Some published\<rparr>
                    else g)))"

definition release_date_step ::
  "world \<Rightarrow> mod_entry \<Rightarrow> string \<Rightarrow> (string \<times> per_game_info) list \<Rightarrow> string
     \<Rightarrow> (string \<times> per_game_info) list" where
  "release_date_step w modInfo published pgc supportedGame =
     (let pgc1 = (if supportedGame \<notin> set (map fst pgc)
                  then AList.update supportedGame empty_game pgc else pgc)
      in AList.map_entry supportedGame
           (set_release_date w modInfo published supportedGame) pgc1)"

text \<open>Lines 262 to 287: the art of every game of the release, cover first.\<close>

fun cover_loop :: "string \<Rightarrow> (string \<times> per_game_info) list \<Rightarrow> string list \<Rightarrow> error + unit" where
  "cover_loop modName pgc [] = Inr ()"
| "cover_loop modName pgc (supportedGame # rest) =
     (if (case map_of pgc supportedGame of None \<Rightarrow> True | Some g \<Rightarrow> g_coverArtUrl g = None)
      then Inl (ExitWithError (modName @ '' does not define 'cover_art_url' and it's missing in 'per_game_config.''
                  @ supportedGame @ apostrophe))
      else cover_loop modName pgc rest)"

fun thumbnail_loop ::
  "string \<Rightarrow> (string \<times> per_game_info) list \<Rightarrow> string list \<Rightarrow> error + unit" where
  "thumbnail_loop modName pgc [] = Inr ()"
| "thumbnail_loop modName pgc (supportedGame # rest) =
     (if (case map_of pgc supportedGame of None \<Rightarrow> True | Some g \<Rightarrow> g_thumbnailArtUrl g = None)
      then Inl (ExitWithError (modName @ '' does not define 'thumbnail_art_url' and it's missing in 'per_game_config.''
                  @ supportedGame @ apostrophe))
      else thumbnail_loop modName pgc rest)"

definition verify_art ::
  "bool \<Rightarrow> string \<Rightarrow> mod_entry \<Rightarrow> mod_source_info \<Rightarrow> string list \<Rightarrow> error + unit" where
  "verify_art lintMode modName modInfo modSourceInfo games =
     (case (if coverArtUrl modSourceInfo = None then
              (if per_game_config modInfo = None then
                 Inl (ExitWithError (modName @ '' does not define 'cover_art_url' but lacks 'per_game_config''
                        @ apostrophe))
               else if \<not> lintMode then cover_loop modName (perGameConfig modSourceInfo) games
               else Inr ())
            else Inr ()) of
        Inl e \<Rightarrow> Inl e
      | Inr _ \<Rightarrow>
          (if thumbnailArtUrl modSourceInfo = None then
             (if per_game_config modInfo = None then
                Inl (ExitWithError (modName @ '' does not define 'thumbnail_art_url' but lacks 'per_game_config''
                       @ apostrophe))
              else if \<not> lintMode then thumbnail_loop modName (perGameConfig modSourceInfo) games
              else Inr ())
           else Inr ()))"

text \<open>Lines 225 to 288: what the parsed \<^verbatim>\<open>metadata.json\<close> does to the version and to the mod.\<close>

definition apply_metadata ::
  "world \<Rightarrow> bool \<Rightarrow> string \<Rightarrow> mod_entry \<Rightarrow> string \<Rightarrow> metadata_doc
     \<Rightarrow> version_info \<times> mod_source_info \<Rightarrow> error + version_info \<times> mod_source_info" where
  "apply_metadata w lintMode modName modInfo cleaned_release_tag data st =
     (case st of (nv, modSourceInfo) \<Rightarrow>
        let nv1 = (case md_settings data of None \<Rightarrow> nv | Some s \<Rightarrow> nv\<lparr>settings := s\<rparr>)
        in (case md_supportedGames data of
              None \<Rightarrow>
                Inl (ExitWithError (''metadata.json, for version: '' @ modName @ '':''
                       @ cleaned_release_tag @ '' does not include 'supportedGames'' @ apostrophe))
            | Some games \<Rightarrow>
                (let nv2 = nv1\<lparr>v_supportedGames := games\<rparr>;
                     msi1 = modSourceInfo\<lparr>supportedGames :=
                              foldl push_game (supportedGames modSourceInfo) games\<rparr>;
                     msi2 = msi1\<lparr>perGameConfig :=
                              foldl (release_date_step w modInfo (publishedDate nv2))
                                (perGameConfig msi1) games\<rparr>
                 in (case verify_art lintMode modName modInfo msi2 games of
                       Inl e \<Rightarrow> Inl e
                     | Inr _ \<Rightarrow> Inr (nv2, msi2)))))"

text \<open>
  Lines 221 to 225 and 289 to 297: the \<^verbatim>\<open>metadata.json\<close> of the release is required, fetched
  and parsed.
\<close>

definition fetch_metadata ::
  "world \<Rightarrow> string \<Rightarrow> string \<Rightarrow> string option \<Rightarrow> error + metadata_doc" where
  "fetch_metadata w modName cleaned_release_tag metadataFileUrl =
     (case metadataFileUrl of
        None \<Rightarrow>
          Inl (ExitWithError (''Could not find 'metadata.json' asset in '' @ modName
                 @ '':'' @ cleaned_release_tag))
      | Some url \<Rightarrow>
          (case fetch w url of
             Inl e \<Rightarrow> Inl e
           | Inr metadataResp \<Rightarrow>
               if status metadataResp = 200 then
                 (case body metadataResp of
                    Inl e \<Rightarrow>
                      Inl (ExitWithError (''Bad metadata.json, not valid JSON: '' @ e
                             @ '' -- '' @ modName @ '':'' @ cleaned_release_tag))
                  | Inr data \<Rightarrow> Inr data)
               else
                 Inl (ExitWithError (''Hit non-200 status code when fetching metadata file for mod release version ''
                        @ modName @ '':'' @ cleaned_release_tag))))"

text \<open>
  Lines 186 to 305: the version of a release that was not ignored. These lines are inside
  the block of the test for the key \<^verbatim>\<open>ignore_versions\<close> (line 166, closed on line 306).
\<close>

definition add_version ::
  "world \<Rightarrow> bool \<Rightarrow> string \<Rightarrow> mod_entry \<Rightarrow> release \<Rightarrow> string
     \<Rightarrow> mod_source_info \<times> line list \<Rightarrow> error + mod_source_info \<times> line list" where
  "add_version w lintMode modName modInfo release cleaned_release_tag st =
     (case st of (modSourceInfo, out) \<Rightarrow>
       (case asset_loop (newVersion cleaned_release_tag release) (assets release) of
          (nv, metadataFileUrl) \<Rightarrow>
            (case fetch_metadata w modName cleaned_release_tag metadataFileUrl of
               Inl e \<Rightarrow> Inl e
             | Inr data \<Rightarrow>
                 (case apply_metadata w lintMode modName modInfo cleaned_release_tag data
                         (nv, modSourceInfo) of
                    Inl e \<Rightarrow> Inl e
                  | Inr (nv', msi) \<Rightarrow>
                      if windows (v_assets nv') = None
                         \<and> linux (v_assets nv') = None
                         \<and> macos (v_assets nv') = None
                      then Inr (msi, out @ [Log (''ignoring version, no assets found - ''
                                  @ modName @ '':'' @ cleaned_release_tag)])
                      else Inr (msi\<lparr>versions := versions msi @ [nv']\<rparr>, out)))))"

text \<open>Lines 156 to 307: the body of the loop over the releases of a mod.\<close>

definition process_release ::
  "world \<Rightarrow> bool \<Rightarrow> string \<Rightarrow> mod_entry \<Rightarrow> mod_source_info \<times> line list \<Rightarrow> release
     \<Rightarrow> error + mod_source_info \<times> line list" where
  "process_release w lintMode modName modInfo st release =
     (case st of (modSourceInfo, out) \<Rightarrow>
        let cleaned_release_tag = clean_tag (tag_name release) in
        if \<not> semver_valid cleaned_release_tag then
          Inr (modSourceInfo,
               out @ [Error (modName @ '':'' @ cleaned_release_tag
                        @ '' is not a valid semantic version, skipping'')])
        else
          (case ignore_versions modInfo of
             None \<Rightarrow> Inr (modSourceInfo, out)
           | Some rules \<Rightarrow>
               (case ignore_loop modName cleaned_release_tag rules of
                  Inl e \<Rightarrow> Inl e
                | Inr (Some l) \<Rightarrow> Inr (modSourceInfo, out @ [Log l])
                | Inr None \<Rightarrow>
                    add_version w lintMode modName modInfo release cleaned_release_tag
                      (modSourceInfo, out))))"

fun release_loop ::
  "world \<Rightarrow> bool \<Rightarrow> string \<Rightarrow> mod_entry \<Rightarrow> mod_source_info \<times> line list \<Rightarrow> release list
     \<Rightarrow> error + mod_source_info \<times> line list" where
  "release_loop w lintMode modName modInfo st [] = Inr st"
| "release_loop w lintMode modName modInfo st (release # modReleases) =
     (case process_release w lintMode modName modInfo st release of
        Inl e \<Rightarrow> Inl e
      | Inr st' \<Rightarrow> release_loop w lintMode modName modInfo st' modReleases)"

subsection \<open>One mod\<close>

text \<open>
  Lines 100 to 137: the record of a mod before its releases are read. The entries of
  \<^verbatim>\<open>per_game_config\<close> are copied with their two art keys only.
\<close>

definition copy_game :: "per_game_entry \<Rightarrow> per_game_info" where
  "copy_game perGameConfig' =
     \<lparr>g_coverArtUrl = pg_cover_art_url perGameConfig',
      g_thumbnailArtUrl = pg_thumbnail_art_url perGameConfig',
      releaseDate = None\<rparr>"

definition init_perGameConfig ::
  "(string \<times> per_game_entry) list \<Rightarrow> (string \<times> per_game_info) list" where
  "init_perGameConfig cfg =
     foldl (\<lambda>pgc entry. AList.update (fst entry) (copy_game (snd entry)) pgc) [] cfg"

definition inferred_url :: "mod_entry \<Rightarrow> string option" where
  "inferred_url modInfo =
     (if website_url modInfo = None \<and> external_link modInfo = None
      then Some (''https://www.github.com/'' @ template (repo_owner modInfo) @ ''/''
                   @ template (repo_name modInfo))
      else website_url modInfo)"

definition init_modSourceInfo :: "mod_entry \<Rightarrow> mod_source_info" where
  "init_modSourceInfo modInfo =
     \<lparr>displayName = display_name modInfo,
      m_description = description modInfo,
      m_authors = authors modInfo,
      m_tags = tags modInfo,
      websiteUrl = inferred_url modInfo,
      supportedGames = [],
      versions = [],
      coverArtUrl = cover_art_url modInfo,
      thumbnailArtUrl = thumbnail_art_url modInfo,
      perGameConfig =
        (case per_game_config modInfo of None \<Rightarrow> [] | Some cfg \<Rightarrow> init_perGameConfig cfg),
      externalLink = None\<rparr>"

definition required_keys :: "string list" where
  "required_keys = [''display_name'', ''description'', ''authors'', ''tags'']"

text \<open>
  Lines 153 to 308: the releases are listed and read unless the run is a lint run.
\<close>

definition poll_releases ::
  "world \<Rightarrow> bool \<Rightarrow> string \<Rightarrow> mod_entry \<Rightarrow> mod_source_info \<times> line list
     \<Rightarrow> error + mod_source_info \<times> line list" where
  "poll_releases w lintMode modName modInfo st =
     (if \<not> lintMode then
        (case listReleases w (template (repo_owner modInfo)) (template (repo_name modInfo)) of
           Inl e \<Rightarrow> Inl e
         | Inr modReleases \<Rightarrow> release_loop w lintMode modName modInfo st modReleases)
      else Inr st)"

text \<open>Lines 93 to 321: the body of the loop over the mods of the configuration.\<close>

definition process_mod ::
  "world \<Rightarrow> bool \<Rightarrow> (string \<times> mod_source_info) list \<times> line list \<Rightarrow> string \<times> mod_entry
     \<Rightarrow> error + (string \<times> mod_source_info) list \<times> line list" where
  "process_mod w lintMode st entry =
     (case st of (mods', out) \<Rightarrow>
       (case entry of (modName, modInfo) \<Rightarrow>
         (case validateJsonKeys required_keys (object_keys modInfo) modName of
            (False, _) \<Rightarrow> Inl (ExitWithError ''aborting'')
          | (True, _) \<Rightarrow>
              (case external_link modInfo of
                 Some l \<Rightarrow>
                   (case supported_games modInfo of
                      None \<Rightarrow>
                        Inl (ExitWithError (modName @ '' is external but lacks 'supported_games''
                               @ apostrophe))
                    | Some games \<Rightarrow>
                        Inr (AList.update modName
                               ((init_modSourceInfo modInfo)
                                  \<lparr>externalLink := Some l, supportedGames := games\<rparr>) mods',
                             out))
               | None \<Rightarrow>
                   if falsy (repo_owner modInfo) \<or> falsy (repo_name modInfo) then
                     Inl (ExitWithError (apostrophe @ ''repo_owner' or 'repo_name' missing in: ''
                            @ modName))
                   else
                     (case poll_releases w lintMode modName modInfo
                             (init_modSourceInfo modInfo, out) of
                        Inl e \<Rightarrow> Inl e
                      | Inr (modSourceInfo, out') \<Rightarrow>
                          if supportedGames modSourceInfo = [] then
                            Inr (AList.update modName
                                   (modSourceInfo\<lparr>supportedGames := [''jak1'']\<rparr>) mods',
                                 out' @ [Log (''had no supported games at the top level, this is optional, defaulted to 'jak1': ''
                                          @ modName)])
                          else Inr (AList.update modName modSourceInfo mods', out'))))))"

fun mods_loop ::
  "world \<Rightarrow> bool \<Rightarrow> (string \<times> mod_source_info) list \<times> line list
     \<Rightarrow> (string \<times> mod_entry) list \<Rightarrow> error + (string \<times> mod_source_info) list \<times> line list" where
  "mods_loop w lintMode st [] = Inr st"
| "mods_loop w lintMode st (entry # rest) =
     (case process_mod w lintMode st entry of
        Inl e \<Rightarrow> Inl e
      | Inr st' \<Rightarrow> mods_loop w lintMode st' rest)"

subsection \<open>Texture packs\<close>

text \<open>
  Lines 409 to 428. The version object of a texture pack is kept as a JavaScript object,
  because the test on line 423 reads a property of it that line 409 never set.
\<close>

definition tp_newVersion :: "string \<Rightarrow> release \<Rightarrow> json" where
  "tp_newVersion cleaned_release_tag release =
     JObj [(''version'', JStr cleaned_release_tag),
           (''publishedDate'', JStr (published_at release)),
           (''downloadUrl'', JNull),
           (''downloadCount'', JNum 0)]"

definition tp_classify_asset :: "json \<Rightarrow> asset \<Rightarrow> json" where
  "tp_classify_asset nv asset =
     (if toLowerCase (name asset) = ''assets.zip'' then
        set_prop (set_prop nv ''downloadUrl'' (JStr (browser_download_url asset)))
          ''downloadCount'' (JNum (download_count asset))
      else nv)"

definition tp_add_version ::
  "string \<Rightarrow> release \<Rightarrow> string \<Rightarrow> texture_pack_info \<times> line list
     \<Rightarrow> error + texture_pack_info \<times> line list" where
  "tp_add_version modName release cleaned_release_tag st =
     (case st of (modSourceInfo, out) \<Rightarrow>
       (let nv = foldl tp_classify_asset (tp_newVersion cleaned_release_tag release)
                   (assets release)
        in (case get_prop nv ''assets'' of
              Inl e \<Rightarrow> Inl e
            | Inr a \<Rightarrow>
                (case get_prop a ''downloadUrl'' of
                   Inl e \<Rightarrow> Inl e
                 | Inr u \<Rightarrow>
                     if u = JNull then
                       Inr (modSourceInfo,
                            out @ [Log (''ignoring version, no assets.zip found - '' @ modName
                                     @ '':'' @ cleaned_release_tag)])
                     else Inr (modSourceInfo\<lparr>t_versions := t_versions modSourceInfo @ [nv]\<rparr>,
                               out)))))"

text \<open>Lines 379 to 430: the body of the loop over the releases of a texture pack.\<close>

definition tp_process_release ::
  "string \<Rightarrow> mod_entry \<Rightarrow> texture_pack_info \<times> line list \<Rightarrow> release
     \<Rightarrow> error + texture_pack_info \<times> line list" where
  "tp_process_release modName modInfo st release =
     (case st of (modSourceInfo, out) \<Rightarrow>
        let cleaned_release_tag = clean_tag (tag_name release) in
        if \<not> semver_valid cleaned_release_tag then
          Inr (modSourceInfo,
               out @ [Error (modName @ '':'' @ cleaned_release_tag
                        @ '' is not a valid semantic version, skipping'')])
        else
          (case ignore_versions modInfo of
             None \<Rightarrow> Inr (modSourceInfo, out)
           | Some rules \<Rightarrow>
               (case ignore_loop modName cleaned_release_tag rules of
                  Inl e \<Rightarrow> Inl e
                | Inr (Some l) \<Rightarrow> Inr (modSourceInfo, out @ [Log l])
                | Inr None \<Rightarrow>
                    tp_add_version modName release cleaned_release_tag (modSourceInfo, out))))"

fun tp_release_loop ::
  "string \<Rightarrow> mod_entry \<Rightarrow> texture_pack_info \<times> line list \<Rightarrow> release list
     \<Rightarrow> error + texture_pack_info \<times> line list" where
  "tp_release_loop modName modInfo st [] = Inr st"
| "tp_release_loop modName modInfo st (release # modReleases) =
     (case tp_process_release modName modInfo st release of
        Inl e \<Rightarrow> Inl e
      | Inr st' \<Rightarrow> tp_release_loop modName modInfo st' modReleases)"

definition init_texturePackInfo :: "mod_entry \<Rightarrow> texture_pack_info" where
  "init_texturePackInfo modInfo =
     \<lparr>t_displayName = display_name modInfo,
      t_description = description modInfo,
      t_authors = authors modInfo,
      t_tags = tags modInfo,
      t_websiteUrl = inferred_url modInfo,
      t_versions = [],
      t_thumbnailArtUrl = thumbnail_art_url modInfo,
      t_perGameConfig = per_game_config modInfo\<rparr>"

text \<open>Lines 327 to 434: the body of the loop over the texture packs.\<close>

definition process_texture_pack ::
  "world \<Rightarrow> bool \<Rightarrow> (string \<times> texture_pack_info) list \<times> line list \<Rightarrow> string \<times> mod_entry
     \<Rightarrow> error + (string \<times> texture_pack_info) list \<times> line list" where
  "process_texture_pack w lintMode st entry =
     (case st of (packs, out) \<Rightarrow>
       (case entry of (modName, modInfo) \<Rightarrow>
         (case validateJsonKeys required_keys (object_keys modInfo) modName of
            (False, _) \<Rightarrow> Inl (ExitWithError ''aborting'')
          | (True, _) \<Rightarrow>
              if thumbnail_art_url modInfo = None \<and> per_game_config modInfo = None then
                Inl (ExitWithError (modName @ '' does not define 'thumbnail_art_url' but lacks 'per_game_config''
                       @ apostrophe))
              else if falsy (repo_owner modInfo) \<or> falsy (repo_name modInfo) then
                Inl (ExitWithError (apostrophe @ ''repo_owner' or 'repo_name' missing in: ''
                       @ modName))
              else
                (case (if \<not> lintMode then
                         (case listReleases w (template (repo_owner modInfo))
                                 (template (repo_name modInfo)) of
                            Inl e \<Rightarrow> Inl e
                          | Inr modReleases \<Rightarrow>
                              tp_release_loop modName modInfo
                                (init_texturePackInfo modInfo, out) modReleases)
                       else Inr (init_texturePackInfo modInfo, out)) of
                   Inl e \<Rightarrow> Inl e
                 | Inr (modSourceInfo, out') \<Rightarrow>
                     Inr (AList.update modName modSourceInfo packs, out')))))"

fun texture_packs_loop ::
  "world \<Rightarrow> bool \<Rightarrow> (string \<times> texture_pack_info) list \<times> line list
     \<Rightarrow> (string \<times> mod_entry) list
     \<Rightarrow> error + (string \<times> texture_pack_info) list \<times> line list" where
  "texture_packs_loop w lintMode st [] = Inr st"
| "texture_packs_loop w lintMode st (entry # rest) =
     (case process_texture_pack w lintMode st entry of
        Inl e \<Rightarrow> Inl e
      | Inr st' \<Rightarrow> texture_packs_loop w lintMode st' rest)"

subsection \<open>\<^verbatim>\<open>JSON.stringify\<close>\<close>

text \<open>
  The serialisation the script compares on line 443: a property whose value is
  \<^verbatim>\<open>undefined\<close> is left out of an object and written \<^verbatim>\<open>null\<close> in an array; numbers are
  integers. \<open>roundtrip\<close> is what \<^verbatim>\<open>JSON.parse\<close> reads back from the text of a value.
\<close>

definition hex_digit :: "nat \<Rightarrow> char" where
  "hex_digit n = ''0123456789abcdef'' ! (n mod 16)"

definition quote_char :: "char \<Rightarrow> string" where
  "quote_char c =
     (if c = CHR 0x22 then [CHR 0x5C, CHR 0x22]
      else if c = CHR 0x5C then [CHR 0x5C, CHR 0x5C]
      else if c = CHR 0x08 then [CHR 0x5C, CHR ''b'']
      else if c = CHR 0x0C then [CHR 0x5C, CHR ''f'']
      else if c = CHR 0x0A then [CHR 0x5C, CHR ''n'']
      else if c = CHR 0x0D then [CHR 0x5C, CHR ''r'']
      else if c = CHR 0x09 then [CHR 0x5C, CHR ''t'']
      else if (of_char c :: nat) < 32 then
        [CHR 0x5C, CHR ''u'', CHR ''0'', CHR ''0'',
         hex_digit (of_char c div 16), hex_digit (of_char c)]
      else [c])"

definition quote :: "string \<Rightarrow> string" where
  "quote s = [CHR 0x22] @ concat (map quote_char s) @ [CHR 0x22]"

fun show_nat :: "nat \<Rightarrow> string" where
  "show_nat n =
     (if n < 10 then [''0123456789'' ! n]
      else show_nat (n div 10) @ [''0123456789'' ! (n mod 10)])"

definition show_int :: "int \<Rightarrow> string" where
  "show_int i = (if i < 0 then ''-'' @ show_nat (nat (- i)) else show_nat (nat i))"

fun join :: "string list \<Rightarrow> string" where
  "join [] = []"
| "join [x] = x"
| "join (x # y # ys) = x @ '','' @ join (y # ys)"

definition element_text :: "string option \<Rightarrow> string" where
  "element_text t = (case t of None \<Rightarrow> ''null'' | Some s \<Rightarrow> s)"

definition property_text :: "string \<times> string option \<Rightarrow> string list" where
  "property_text p = (case snd p of None \<Rightarrow> [] | Some s \<Rightarrow> [quote (fst p) @ '':'' @ s])"

primrec stringify :: "json \<Rightarrow> string option" where
  "stringify JUndefined = None"
| "stringify JNull = Some ''null''"
| "stringify (JBool b) = Some (if b then ''true'' else ''false'')"
| "stringify (JNum i) = Some (show_int i)"
| "stringify (JStr s) = Some (quote s)"
| "stringify (JArr xs) = Some (''['' @ join (map element_text (map stringify xs)) @ '']'')"
| "stringify (JObj kvs) =
     Some (''{'' @ join (concat (map property_text (map (map_prod id stringify) kvs))) @ ''}'')"

definition element_back :: "json \<Rightarrow> json" where
  "element_back v = (if v = JUndefined then JNull else v)"

primrec roundtrip :: "json \<Rightarrow> json" where
  "roundtrip JUndefined = JUndefined"
| "roundtrip JNull = JNull"
| "roundtrip (JBool b) = JBool b"
| "roundtrip (JNum i) = JNum i"
| "roundtrip (JStr s) = JStr s"
| "roundtrip (JArr xs) = JArr (map element_back (map roundtrip xs))"
| "roundtrip (JObj kvs) =
     JObj (filter (\<lambda>p. snd p \<noteq> JUndefined) (map (map_prod id roundtrip) kvs))"

subsection \<open>The catalog as a JavaScript value\<close>

definition opt_str :: "string option \<Rightarrow> json" where
  "opt_str v = (case v of None \<Rightarrow> JUndefined | Some s \<Rightarrow> JStr s)"

definition null_str :: "string option \<Rightarrow> json" where
  "null_str v = (case v of None \<Rightarrow> JNull | Some s \<Rightarrow> JStr s)"

definition str_list :: "string list \<Rightarrow> json" where
  "str_list xs = JArr (map JStr xs)"

definition opt_list :: "string list option \<Rightarrow> json" where
  "opt_list v = (case v of None \<Rightarrow> JUndefined | Some xs \<Rightarrow> str_list xs)"

definition prop_if :: "string \<Rightarrow> string option \<Rightarrow> (string \<times> json) list" where
  "prop_if k v = (case v of None \<Rightarrow> [] | Some s \<Rightarrow> [(k, JStr s)])"

definition platforms_json :: "('a \<Rightarrow> json) \<Rightarrow> 'a platforms \<Rightarrow> json" where
  "platforms_json f p =
     JObj [(''windows'', f (windows p)), (''linux'', f (linux p)), (''macos'', f (macos p))]"

definition version_json :: "version_info \<Rightarrow> json" where
  "version_json v =
     JObj [(''version'', JStr (version v)),
           (''publishedDate'', JStr (publishedDate v)),
           (''supportedGames'', str_list (v_supportedGames v)),
           (''settings'', settings v),
           (''assets'', platforms_json null_str (v_assets v)),
           (''assetDownloadCounts'', platforms_json JNum (assetDownloadCounts v))]"

definition game_json :: "per_game_info \<Rightarrow> json" where
  "game_json g =
     JObj (prop_if ''coverArtUrl'' (g_coverArtUrl g)
           @ prop_if ''thumbnailArtUrl'' (g_thumbnailArtUrl g)
           @ prop_if ''releaseDate'' (releaseDate g))"

definition mod_json :: "mod_source_info \<Rightarrow> json" where
  "mod_json m =
     JObj [(''displayName'', opt_str (displayName m)),
           (''description'', opt_str (m_description m)),
           (''authors'', opt_list (m_authors m)),
           (''tags'', opt_list (m_tags m)),
           (''websiteUrl'', opt_str (websiteUrl m)),
           (''supportedGames'', str_list (supportedGames m)),
           (''versions'', JArr (map version_json (versions m))),
           (''coverArtUrl'', opt_str (coverArtUrl m)),
           (''thumbnailArtUrl'', opt_str (thumbnailArtUrl m)),
           (''perGameConfig'', JObj (map (map_prod id game_json) (perGameConfig m))),
           (''externalLink'', null_str (externalLink m))]"

definition game_entry_json :: "per_game_entry \<Rightarrow> json" where
  "game_entry_json e =
     JObj (prop_if ''cover_art_url'' (pg_cover_art_url e)
           @ prop_if ''thumbnail_art_url'' (pg_thumbnail_art_url e)
           @ prop_if ''release_date_override'' (pg_release_date_override e))"

definition texture_pack_json :: "texture_pack_info \<Rightarrow> json" where
  "texture_pack_json t =
     JObj [(''displayName'', opt_str (t_displayName t)),
           (''description'', opt_str (t_description t)),
           (''authors'', opt_list (t_authors t)),
           (''tags'', opt_list (t_tags t)),
           (''websiteUrl'', opt_str (t_websiteUrl t)),
           (''versions'', JArr (t_versions t)),
           (''thumbnailArtUrl'', opt_str (t_thumbnailArtUrl t)),
           (''perGameConfig'',
              (case t_perGameConfig t of
                 None \<Rightarrow> JUndefined
               | Some cfg \<Rightarrow> JObj (map (map_prod id game_entry_json) cfg)))]"

definition data_json :: "mod_source_data \<Rightarrow> json" where
  "data_json d =
     JObj [(''schemaVersion'', JStr (schemaVersion d)),
           (''sourceName'', JStr (sourceName d)),
           (''mods'', JObj (map (map_prod id mod_json) (d_mods d))),
           (''texturePacks'', JObj (map (map_prod id texture_pack_json) (texturePacks d)))]"

subsection \<open>Comparing with the file on disk and writing\<close>

text \<open>
  \<^verbatim>\<open>../../site/mods.json\<close> before the run: absent, a text that \<^verbatim>\<open>JSON.parse\<close> rejects with the
  given exception, or a text that parses to the given value.
\<close>

datatype site_file =
    Absent
  | Invalid string
  | Document json

text \<open>
  Lines 437 to 457. The result is the value given to \<^verbatim>\<open>fs.writeFileSync\<close> (through
  \<^verbatim>\<open>JSON.stringify\<close> with an indent of 4) when the file is written, and the lines logged.
  \<^verbatim>\<open>delete\<close> on \<^verbatim>\<open>null\<close> throws; on any other value that is not an object it does nothing.
\<close>

definition stamp :: "world \<Rightarrow> json \<Rightarrow> json" where
  "stamp w modSourceData = set_prop modSourceData ''lastUpdated'' (JStr (now w))"

definition diff_and_write ::
  "world \<Rightarrow> bool \<Rightarrow> json \<Rightarrow> site_file \<Rightarrow> error + json option \<times> line list" where
  "diff_and_write w lintMode modSourceData file =
     (if \<not> lintMode then
        (case file of
           Absent \<Rightarrow> Inr (Some (stamp w modSourceData), [])
         | Invalid e \<Rightarrow> Inl (Uncaught e)
         | Document existingModSourceData \<Rightarrow>
             if existingModSourceData = JNull then
               Inl (Uncaught ''TypeError: Cannot convert undefined or null to object'')
             else if stringify (delete_prop existingModSourceData ''lastUpdated'')
                     = stringify modSourceData
             then Inr (None, [Log ''mods.json would be unchanged, not updating the file''])
             else Inr (Some (stamp w modSourceData), []))
      else Inr (None, []))"

text \<open>The file after the run: the text written parses to the round trip of the value.\<close>

definition file_after :: "site_file \<Rightarrow> json option \<Rightarrow> site_file" where
  "file_after file written =
     (case written of None \<Rightarrow> file | Some d \<Rightarrow> Document (roundtrip d))"

subsection \<open>The whole run\<close>

record outcome =
  modSourceData :: mod_source_data
  written :: "json option"
  console :: "line list"

definition main :: "world \<Rightarrow> string list \<Rightarrow> config_file \<Rightarrow> site_file \<Rightarrow> error + outcome" where
  "main w args cfg file =
     (case parse_args args of (lintMode, out0) \<Rightarrow>
       (case cfg of
          Missing \<Rightarrow>
            Inl (ExitWithError (''Couldn't locate 'config.yaml' file, aborting!''))
        | Unparseable e \<Rightarrow>
            Inl (ExitWithError (''Couldn't successfully parse config file, fix it!: '' @ e))
        | Parsed configFile \<Rightarrow>
           (case metadata configFile of
              None \<Rightarrow>
                Inl (Uncaught (''TypeError: Cannot read properties of undefined (reading 'name''
                       @ apostrophe @ '')''))
            | Some m \<Rightarrow>
                if falsy (metadata_name m) then
                  Inl (ExitWithError (apostrophe
                         @ ''metadata' section missing schema_version or name''))
                else
                  (case mods configFile of
                     None \<Rightarrow> Inl (ExitWithError (apostrophe @ ''mods' section missing''))
                   | Some entries \<Rightarrow>
                      (case mods_loop w lintMode ([], out0) entries of
                         Inl e \<Rightarrow> Inl e
                       | Inr (mods', out1) \<Rightarrow>
                          (case texture_packs_loop w lintMode ([], out1)
                                  (case texture_packs configFile of
                                     None \<Rightarrow> [] | Some packs \<Rightarrow> packs) of
                             Inl e \<Rightarrow> Inl e
                           | Inr (packs', out2) \<Rightarrow>
                              (let d = \<lparr>schemaVersion = ''1.0.0'',
                                        sourceName = template (metadata_name m),
                                        d_mods = mods',
                                        texturePacks = packs'\<rparr>
                               in (case diff_and_write w lintMode (data_json d) file of
                                     Inl e \<Rightarrow> Inl e
                                   | Inr (wr, out3) \<Rightarrow>
                                       Inr \<lparr>modSourceData = d,
                                            written = wr,
                                            console = out2 @ out3\<rparr>))))))))"

subsection \<open>Reading the result\<close>

text \<open>
  Readings used to state the properties: whether the lower-cased name of an asset starts
  with a prefix (the test of lines 208, 211 and 214), the last asset of a list that does,
  \<^verbatim>\<open>perGameConfig[game].releaseDate\<close>, and the date and the versions that a run stores for
  a mod.
\<close>

definition has_prefix :: "string \<Rightarrow> asset \<Rightarrow> bool" where
  "has_prefix p asset = startsWith (toLowerCase (name asset)) p"

definition last_with_prefix :: "string \<Rightarrow> asset list \<Rightarrow> asset option" where
  "last_with_prefix p as =
     (if filter (has_prefix p) as = [] then None else Some (last (filter (has_prefix p) as)))"

definition stored_date :: "(string \<times> per_game_info) list \<Rightarrow> string \<Rightarrow> string option" where
  "stored_date pgc game = (case map_of pgc game of None \<Rightarrow> None | Some g \<Rightarrow> releaseDate g)"

definition mod_stored_date :: "string \<Rightarrow> string \<Rightarrow> error + outcome \<Rightarrow> error + string option" where
  "mod_stored_date modName game result =
     (case result of
        Inl e \<Rightarrow> Inl e
      | Inr out \<Rightarrow>
          Inr (case map_of (d_mods (modSourceData out)) modName of
                 None \<Rightarrow> None
               | Some m \<Rightarrow> stored_date (perGameConfig m) game))"

definition mod_versions :: "string \<Rightarrow> error + outcome \<Rightarrow> error + version_info list option" where
  "mod_versions modName result =
     (case result of
        Inl e \<Rightarrow> Inl e
      | Inr out \<Rightarrow> Inr (map_option versions (map_of (d_mods (modSourceData out)) modName)))"

text \<open>
  The two readings of an ignore rule: the rule matches a version (a rule that starts with
  \<^verbatim>\<open><\<close> when the version is less than the rest of the rule, any other rule when it equals
  the version), and the rule is a version that \<^verbatim>\<open>semver\<close> accepts.
\<close>

definition rule_matches :: "string \<Rightarrow> string \<Rightarrow> bool" where
  "rule_matches rule v =
     (if startsWith rule ''<'' then semver_lt v (substring rule 1) = Inr True
      else semver_eq rule v = Inr True)"

definition rule_is_version :: "string \<Rightarrow> bool" where
  "rule_is_version rule =
     semver_valid (if startsWith rule ''<'' then substring rule 1 else rule)"

subsection \<open>The scenario of the specification\<close>

text \<open>
  The mod \<^verbatim>\<open>foo\<close> of the specification's last scenario: owner \<^verbatim>\<open>x\<close>, repository \<^verbatim>\<open>y\<close>, no
  \<^verbatim>\<open>cover_art_url\<close>, both art keys under \<^verbatim>\<open>per_game_config.jak1\<close>, no \<^verbatim>\<open>ignore_versions\<close>, and
  one release \<^verbatim>\<open>v1.0.0\<close> with the assets \<^verbatim>\<open>windows-1.0.0.zip\<close> and \<^verbatim>\<open>metadata.json\<close>.
\<close>

definition scenario_entry :: mod_entry where
  "scenario_entry =
     \<lparr>display_name = Some ''Foo'',
      description = Some ''A mod'',
      authors = Some [''someone''],
      tags = Some [''misc''],
      website_url = None,
      external_link = None,
      supported_games = None,
      repo_owner = Some ''x'',
      repo_name = Some ''y'',
      ignore_versions = None,
      release_date_override = None,
      cover_art_url = None,
      thumbnail_art_url = None,
      per_game_config =
        Some [(''jak1'', \<lparr>pg_cover_art_url = Some ''https://example.org/cover.png'',
                          pg_thumbnail_art_url = Some ''https://example.org/thumb.png'',
                          pg_release_date_override = None\<rparr>)]\<rparr>"

definition scenario_release :: release where
  "scenario_release =
     \<lparr>tag_name = ''v1.0.0'',
      published_at = ''2024-01-01T00:00:00Z'',
      assets =
        [\<lparr>name = ''windows-1.0.0.zip'',
          browser_download_url = ''https://example.org/w.zip'',
          download_count = 3\<rparr>,
         \<lparr>name = ''metadata.json'',
          browser_download_url = ''https://example.org/m.json'',
          download_count = 0\<rparr>]\<rparr>"

definition scenario_metadata :: metadata_doc where
  "scenario_metadata = \<lparr>md_settings = None, md_supportedGames = Some [''jak1'']\<rparr>"

definition scenario_clock :: "string \<Rightarrow> int option" where
  "scenario_clock s =
     (if s = ''2024-01-01T00:00:00Z'' then Some 1704067200000
      else if s = ''2023-06-01T00:00:00Z'' then Some 1685577600000
      else None)"

definition scenario_world :: "release list \<Rightarrow> metadata_doc \<Rightarrow> world" where
  "scenario_world releases doc =
     \<lparr>listReleases = (\<lambda>owner repo. Inr (if owner = ''x'' \<and> repo = ''y'' then releases else [])),
      fetch = (\<lambda>url. Inr \<lparr>status = 200, body = Inr doc\<rparr>),
      Date_parse = scenario_clock,
      now = ''2024-02-02T00:00:00.000Z''\<rparr>"

definition scenario_config :: "mod_entry \<Rightarrow> config" where
  "scenario_config entry =
     \<lparr>metadata = Some \<lparr>metadata_name = Some ''source''\<rparr>,
      mods = Some [(''foo'', entry)],
      texture_packs = None\<rparr>"

text \<open>
  Variations of the scenario: the same mod with an empty \<^verbatim>\<open>ignore_versions\<close> list; an
  earlier release \<^verbatim>\<open>v0.9.0\<close>; the release with two assets for Windows; a \<^verbatim>\<open>metadata.json\<close>
  whose \<^verbatim>\<open>settings\<close> name one of the two default keys only. For each, the version and the
  record of the mod that the release produces.
\<close>

definition scenario_listed :: mod_entry where
  "scenario_listed = scenario_entry\<lparr>ignore_versions := Some []\<rparr>"

definition scenario_games :: "string \<Rightarrow> (string \<times> per_game_info) list" where
  "scenario_games date =
     [(''jak1'', \<lparr>g_coverArtUrl = Some ''https://example.org/cover.png'',
                  g_thumbnailArtUrl = Some ''https://example.org/thumb.png'',
                  releaseDate = Some date\<rparr>)]"

definition scenario_version :: version_info where
  "scenario_version =
     \<lparr>version = ''1.0.0'',
      publishedDate = ''2024-01-01T00:00:00Z'',
      v_supportedGames = [''jak1''],
      settings = default_settings,
      v_assets = \<lparr>windows = Some ''https://example.org/w.zip'', linux = None, macos = None\<rparr>,
      assetDownloadCounts = \<lparr>windows = 3, linux = 0, macos = 0\<rparr>\<rparr>"

definition scenario_result :: "string \<Rightarrow> version_info list \<Rightarrow> mod_source_info" where
  "scenario_result date vs =
     (init_modSourceInfo scenario_listed)
       \<lparr>supportedGames := [''jak1''], versions := vs, perGameConfig := scenario_games date\<rparr>"

definition earlier_release :: release where
  "earlier_release =
     scenario_release\<lparr>tag_name := ''v0.9.0'', published_at := ''2023-06-01T00:00:00Z''\<rparr>"

definition earlier_version :: version_info where
  "earlier_version =
     scenario_version\<lparr>version := ''0.9.0'', publishedDate := ''2023-06-01T00:00:00Z''\<rparr>"

definition two_windows_release :: release where
  "two_windows_release =
     scenario_release
       \<lparr>assets :=
          [\<lparr>name = ''windows-first.zip'',
            browser_download_url = ''https://example.org/first.zip'',
            download_count = 1\<rparr>,
           \<lparr>name = ''Windows-second.zip'',
            browser_download_url = ''https://example.org/second.zip'',
            download_count = 2\<rparr>,
           \<lparr>name = ''metadata.json'',
            browser_download_url = ''https://example.org/m.json'',
            download_count = 0\<rparr>]\<rparr>"

definition two_windows_version :: version_info where
  "two_windows_version =
     scenario_version
       \<lparr>v_assets := \<lparr>windows = Some ''https://example.org/second.zip'',
                     linux = None, macos = None\<rparr>,
        assetDownloadCounts := \<lparr>windows = 2, linux = 0, macos = 0\<rparr>\<rparr>"

definition partial_settings :: json where
  "partial_settings = JObj [(''shareVanillaSaves'', JBool True)]"

definition partial_settings_metadata :: metadata_doc where
  "partial_settings_metadata =
     \<lparr>md_settings = Some partial_settings, md_supportedGames = Some [''jak1'']\<rparr>"

text \<open>
  A catalog without mods, and a document on disk that differs from it in the source name.
\<close>

definition empty_catalog :: mod_source_data where
  "empty_catalog =
     \<lparr>schemaVersion = ''1.0.0'', sourceName = ''source'', d_mods = [], texturePacks = []\<rparr>"

definition old_document :: json where
  "old_document =
     JObj [(''schemaVersion'', JStr ''1.0.0''),
           (''sourceName'', JStr ''old source''),
           (''mods'', JObj []),
           (''texturePacks'', JObj []),
           (''lastUpdated'', JStr ''2023-01-01T00:00:00.000Z'')]"

text \<open>The release of the scenario without its \<^verbatim>\<open>metadata.json\<close>.\<close>

definition bare_release :: release where
  "bare_release =
     scenario_release
       \<lparr>assets :=
          [\<lparr>name = ''windows-1.0.0.zip'',
            browser_download_url = ''https://example.org/w.zip'',
            download_count = 3\<rparr>]\<rparr>"

section \<open>Properties\<close>

subsection \<open>The order of versions and the ignore loop\<close>

lemma compare_number_refl [simp]: "compare_number a a = Eq"
  by (simp add: compare_number_def)

lemma compare_number_flip: "compare_number a b = Lt \<longleftrightarrow> compare_number b a = Gt"
  by (auto simp: compare_number_def)

lemma str_less_irrefl [simp]: "\<not> str_less a a"
  by (induction a) auto

lemma str_less_asym: "str_less a b \<Longrightarrow> \<not> str_less b a"
  by (induction a b rule: str_less.induct) auto

lemma str_less_total: "a \<noteq> b \<Longrightarrow> str_less a b \<or> str_less b a"
proof (induction a b rule: str_less.induct)
  case (4 x xs y ys)
  then show ?case
    by (cases "x = y") (auto simp: linorder_neq_iff [symmetric])
qed auto

lemma compareIdentifiers_refl [simp]: "compareIdentifiers a a = Eq"
  by (simp add: compareIdentifiers_def)

lemma compareIdentifiers_flip: "compareIdentifiers a b = Lt \<longleftrightarrow> compareIdentifiers b a = Gt"
proof (cases "ident_numeric a \<and> ident_numeric b")
  case True
  then show ?thesis
    by (simp add: compareIdentifiers_def compare_number_flip)
next
  case False
  show ?thesis
  proof (cases "a = b")
    case True
    then show ?thesis by simp
  next
    case False
    with \<open>\<not> (ident_numeric a \<and> ident_numeric b)\<close> str_less_asym str_less_total
    show ?thesis
      by (cases a; cases b) (auto simp: compareIdentifiers_def ident_numeric_def ident_less_def)
  qed
qed

lemma compare_idents_refl [simp]: "compare_idents p p = Eq"
  by (induction p) simp_all

lemma compare_idents_flip: "compare_idents p q = Lt \<longleftrightarrow> compare_idents q p = Gt"
  by (induction p q rule: compare_idents.induct) (auto simp: compareIdentifiers_flip)

lemma comparePre_flip: "comparePre p q = Lt \<longleftrightarrow> comparePre q p = Gt"
  using compare_idents_flip [of p q]
  by (cases p; cases q) (auto simp: comparePre_def)

lemma compareMain_flip: "compareMain a b = Lt \<longleftrightarrow> compareMain b a = Gt"
  by (auto simp: compareMain_def compare_number_def)

lemma compareMain_Eq: "compareMain a b = Eq \<longleftrightarrow> compareMain b a = Eq"
  by (auto simp: compareMain_def compare_number_def)

lemma compare_refl [simp]: "compare a a = Eq"
  by (simp add: compare_def compareMain_def comparePre_def)

lemma compare_flip: "compare a b = Lt \<longleftrightarrow> compare b a = Gt"
  using comparePre_flip [of "prerelease a" "prerelease b"] compareMain_flip [of a b]
        compareMain_Eq [of a b]
  by (cases "compareMain a b"; cases "compareMain b a") (auto simp: compare_def)

lemma compare_Eq_not_Lt: "compare a b = Eq \<Longrightarrow> compare b a \<noteq> Lt"
  using compare_flip [of b a] by auto

lemma semver_lt_irrefl: "semver_lt v v \<noteq> Inr True"
  by (auto simp: semver_lt_def semver_compare_def split: sum.splits)

lemma semver_lt_asym: "semver_lt a b = Inr True \<Longrightarrow> semver_lt b a = Inr False"
proof -
  assume "semver_lt a b = Inr True"
  then obtain x y where p: "SemVer_new a = Inr x" "SemVer_new b = Inr y"
    and "compare x y = Lt"
    by (auto simp: semver_lt_def semver_compare_def split: sum.splits)
  with compare_flip [of x y] have "compare y x = Gt" by simp
  with p show ?thesis by (simp add: semver_lt_def semver_compare_def)
qed

lemma semver_eq_not_lt: "semver_eq b v = Inr True \<Longrightarrow> semver_lt v b = Inr False"
  by (auto simp: semver_eq_def semver_lt_def semver_compare_def
           split: sum.splits dest: compare_Eq_not_Lt)

lemma first_index_Cons:
  "(\<exists>i<length (x # xs). P ((x # xs) ! i) \<and> (\<forall>j<i. Q ((x # xs) ! j)))
   \<longleftrightarrow> (P x \<or> (Q x \<and> (\<exists>i<length xs. P (xs ! i) \<and> (\<forall>j<i. Q (xs ! j)))))"
  by (auto simp: Ex_less_Suc2 All_less_Suc2)

lemma rule_matches_is_version: "rule_matches rule v \<Longrightarrow> rule_is_version rule"
  by (auto simp: rule_matches_def rule_is_version_def semver_valid_def semver_lt_def
                 semver_eq_def semver_compare_def split: if_splits sum.splits)

lemma ignore_loop_Cons:
  assumes "semver_valid tag"
  shows "ignore_loop m tag (rule # rest)
         = (case SemVer_new (if startsWith rule ''<'' then substring rule 1 else rule) of
              Inl e \<Rightarrow> Inl (Uncaught (''TypeError: '' @ e))
            | Inr _ \<Rightarrow>
                if rule_matches rule tag then
                  Inr (Some (''ignoring release - '' @ m @ '':''
                         @ (if startsWith rule ''<'' then tag else rule)))
                else ignore_loop m tag rest)"
  using assms
  by (auto simp: rule_matches_def semver_valid_def semver_lt_def semver_eq_def
                 semver_compare_def Let_def split: sum.splits)

lemma ignore_loop_step:
  assumes "semver_valid tag"
  shows "(\<not> rule_is_version rule \<longrightarrow> (\<exists>e. ignore_loop m tag (rule # rest) = Inl e))
         \<and> (rule_is_version rule \<and> rule_matches rule tag
              \<longrightarrow> (\<exists>l. ignore_loop m tag (rule # rest) = Inr (Some l)))
         \<and> (rule_is_version rule \<and> \<not> rule_matches rule tag
              \<longrightarrow> ignore_loop m tag (rule # rest) = ignore_loop m tag rest)"
  unfolding ignore_loop_Cons [OF assms]
  by (auto simp: rule_is_version_def semver_valid_def split: sum.splits)

lemma ignore_loop_skip_iff:
  assumes "semver_valid tag"
  shows "(\<exists>l. ignore_loop m tag rules = Inr (Some l))
         \<longleftrightarrow> (\<exists>i<length rules. rule_matches (rules ! i) tag
                \<and> (\<forall>j<i. rule_is_version (rules ! j)))"
proof (induction rules)
  case Nil
  show ?case by simp
next
  case (Cons rule rest)
  show ?case
    unfolding first_index_Cons [of rule rest "\<lambda>r. rule_matches r tag" rule_is_version]
    using Cons ignore_loop_step [OF assms, of rule m rest]
          rule_matches_is_version [of rule tag]
    by (cases "rule_is_version rule"; cases "rule_matches rule tag") auto
qed

lemma ignore_loop_abort_iff:
  assumes "semver_valid tag"
  shows "(\<exists>e. ignore_loop m tag rules = Inl e)
         \<longleftrightarrow> (\<exists>i<length rules. \<not> rule_is_version (rules ! i)
                \<and> (\<forall>j<i. rule_is_version (rules ! j) \<and> \<not> rule_matches (rules ! j) tag))"
proof (induction rules)
  case Nil
  show ?case by simp
next
  case (Cons rule rest)
  show ?case
    unfolding first_index_Cons [of rule rest "\<lambda>r. \<not> rule_is_version r"
                                 "\<lambda>r. rule_is_version r \<and> \<not> rule_matches r tag"]
    using Cons ignore_loop_step [OF assms, of rule m rest]
          rule_matches_is_version [of rule tag]
    by (cases "rule_is_version rule"; cases "rule_matches rule tag") auto
qed

lemma ignore_loop_none:
  assumes "semver_valid tag"
      and "\<forall>rule\<in>set rules. \<not> rule_matches rule tag \<and> rule_is_version rule"
  shows "ignore_loop m tag rules = Inr None"
  using assms(2)
proof (induction rules)
  case Nil
  show ?case by simp
next
  case (Cons rule rest)
  with ignore_loop_step [OF assms(1), of rule m rest] show ?case
    by simp
qed

lemma ignore_loop_short_circuit:
  assumes "semver_valid tag" and "rule_matches rule tag"
  shows "ignore_loop m tag (before @ rule # after) = ignore_loop m tag (before @ [rule])"
proof (induction before)
  case Nil
  from assms(2) rule_matches_is_version [OF assms(2)] show ?case
    by (simp add: ignore_loop_Cons [OF assms(1)] rule_is_version_def semver_valid_def
             del: ignore_loop.simps(2) split: sum.splits)
next
  case (Cons y ys)
  then show ?case
    by (simp add: ignore_loop_Cons [OF assms(1)] del: ignore_loop.simps(2) split: sum.splits)
qed

subsection \<open>The steps of one release\<close>

lemma asset_loop_snoc:
  "asset_loop nv (as @ [a]) = classify_asset (asset_loop nv as) a"
  by (simp add: asset_loop_def)

lemma prefixes_exclusive:
  "startsWith s ''linux-'' \<Longrightarrow> \<not> startsWith s ''windows-''"
  "startsWith s ''macos-'' \<Longrightarrow> \<not> startsWith s ''windows-''"
  "startsWith s ''macos-'' \<Longrightarrow> \<not> startsWith s ''linux-''"
  by (cases s; simp add: startsWith_def)+

lemma last_with_prefix_snoc:
  "last_with_prefix p (as @ [a]) = (if has_prefix p a then Some a else last_with_prefix p as)"
  by (simp add: last_with_prefix_def)

lemma asset_loop_publishedDate:
  "publishedDate (fst (asset_loop nv as)) = publishedDate nv
   \<and> settings (fst (asset_loop nv as)) = settings nv
   \<and> version (fst (asset_loop nv as)) = version nv"
  by (induction as rule: rev_induct)
     (auto simp: asset_loop_snoc classify_asset_def asset_loop_def split: prod.splits)

lemma asset_loop_windows:
  "windows (v_assets (fst (asset_loop nv as)))
     = (case last_with_prefix ''windows-'' as of
          None \<Rightarrow> windows (v_assets nv) | Some a \<Rightarrow> Some (browser_download_url a))
   \<and> windows (assetDownloadCounts (fst (asset_loop nv as)))
     = (case last_with_prefix ''windows-'' as of
          None \<Rightarrow> windows (assetDownloadCounts nv) | Some a \<Rightarrow> download_count a)"
proof (induction as rule: rev_induct)
  case Nil
  show ?case by (simp add: asset_loop_def last_with_prefix_def)
next
  case (snoc a as)
  then show ?case
    by (cases "asset_loop nv as")
       (auto simp: asset_loop_snoc last_with_prefix_snoc classify_asset_def has_prefix_def)
qed

lemma asset_loop_linux:
  "linux (v_assets (fst (asset_loop nv as)))
     = (case last_with_prefix ''linux-'' as of
          None \<Rightarrow> linux (v_assets nv) | Some a \<Rightarrow> Some (browser_download_url a))
   \<and> linux (assetDownloadCounts (fst (asset_loop nv as)))
     = (case last_with_prefix ''linux-'' as of
          None \<Rightarrow> linux (assetDownloadCounts nv) | Some a \<Rightarrow> download_count a)"
proof (induction as rule: rev_induct)
  case Nil
  show ?case by (simp add: asset_loop_def last_with_prefix_def)
next
  case (snoc a as)
  then show ?case
    by (cases "asset_loop nv as")
       (auto simp: asset_loop_snoc last_with_prefix_snoc classify_asset_def has_prefix_def
             dest: prefixes_exclusive)
qed

lemma asset_loop_macos:
  "macos (v_assets (fst (asset_loop nv as)))
     = (case last_with_prefix ''macos-'' as of
          None \<Rightarrow> macos (v_assets nv) | Some a \<Rightarrow> Some (browser_download_url a))
   \<and> macos (assetDownloadCounts (fst (asset_loop nv as)))
     = (case last_with_prefix ''macos-'' as of
          None \<Rightarrow> macos (assetDownloadCounts nv) | Some a \<Rightarrow> download_count a)"
proof (induction as rule: rev_induct)
  case Nil
  show ?case by (simp add: asset_loop_def last_with_prefix_def)
next
  case (snoc a as)
  then show ?case
    by (cases "asset_loop nv as")
       (auto simp: asset_loop_snoc last_with_prefix_snoc classify_asset_def has_prefix_def
             dest: prefixes_exclusive)
qed

lemma apply_metadata_Inr:
  assumes "apply_metadata w lintMode modName modInfo tag data (nv, msi) = Inr (nv', msi')"
  shows "\<exists>games. md_supportedGames data = Some games
           \<and> nv' = (case md_settings data of None \<Rightarrow> nv | Some s \<Rightarrow> nv\<lparr>settings := s\<rparr>)
                     \<lparr>v_supportedGames := games\<rparr>
           \<and> msi' = msi\<lparr>supportedGames := foldl push_game (supportedGames msi) games,
                        perGameConfig := foldl (release_date_step w modInfo (publishedDate nv))
                                           (perGameConfig msi) games\<rparr>"
  using assms
  by (auto simp: apply_metadata_def Let_def split: option.splits sum.splits)

lemma add_version_Inr:
  assumes "add_version w lintMode modName modInfo release tag (msi, out) = Inr (msi', out')"
  shows "\<exists>data nv' msi2.
           fetch_metadata w modName tag (snd (asset_loop (newVersion tag release) (assets release)))
             = Inr data
           \<and> apply_metadata w lintMode modName modInfo tag data
                (fst (asset_loop (newVersion tag release) (assets release)), msi) = Inr (nv', msi2)
           \<and> (msi' = msi2 \<or> msi' = msi2\<lparr>versions := versions msi2 @ [nv']\<rparr>)"
  using assms
  by (auto simp: add_version_def split: prod.splits sum.splits if_splits)

lemma accepted_version:
  assumes "add_version w lintMode modName modInfo release tag (msi, out) = Inr (msi', out')"
      and "versions msi' = versions msi @ [nv]"
  shows "\<exists>data games.
           fetch_metadata w modName tag (snd (asset_loop (newVersion tag release) (assets release)))
             = Inr data
           \<and> md_supportedGames data = Some games
           \<and> nv = (case md_settings data of
                     None \<Rightarrow> fst (asset_loop (newVersion tag release) (assets release))
                   | Some s \<Rightarrow> (fst (asset_loop (newVersion tag release) (assets release)))
                                \<lparr>settings := s\<rparr>)
                   \<lparr>v_supportedGames := games\<rparr>"
proof -
  from add_version_Inr [OF assms(1)] obtain data nv' msi2 where
    f: "fetch_metadata w modName tag (snd (asset_loop (newVersion tag release) (assets release)))
          = Inr data"
    and a: "apply_metadata w lintMode modName modInfo tag data
              (fst (asset_loop (newVersion tag release) (assets release)), msi) = Inr (nv', msi2)"
    and m: "msi' = msi2 \<or> msi' = msi2\<lparr>versions := versions msi2 @ [nv']\<rparr>"
    by blast
  from apply_metadata_Inr [OF a] obtain games where
    g: "md_supportedGames data = Some games"
    and n: "nv' = (case md_settings data of
                     None \<Rightarrow> fst (asset_loop (newVersion tag release) (assets release))
                   | Some s \<Rightarrow> (fst (asset_loop (newVersion tag release) (assets release)))
                                \<lparr>settings := s\<rparr>)
                   \<lparr>v_supportedGames := games\<rparr>"
    and v: "versions msi2 = versions msi"
    by auto
  from m v assms(2) have "nv = nv'" by auto
  with f g n show ?thesis by blast
qed

lemma release_date_step_map_of:
  "map_of (release_date_step w modInfo published pgc game)
   = (map_of pgc)(game \<mapsto> set_release_date w modInfo published game
                             (case map_of pgc game of None \<Rightarrow> empty_game | Some g \<Rightarrow> g))"
  by (auto simp: release_date_step_def Let_def map_of_map_entry update_conv'
                 map_of_eq_None_iff [symmetric] fun_eq_iff
           split: option.splits)

lemma set_release_date_idem:
  "set_release_date w modInfo published game (set_release_date w modInfo published game g)
   = set_release_date w modInfo published game g"
  by (auto simp: set_release_date_def num_gt_def split: option.splits)

lemma release_date_loop_other:
  "game \<notin> set games \<Longrightarrow>
   map_of (foldl (release_date_step w modInfo published) pgc games) game = map_of pgc game"
  by (induction games arbitrary: pgc) (auto simp: release_date_step_map_of)

lemma release_date_loop_map_of:
  "game \<in> set games \<Longrightarrow>
   map_of (foldl (release_date_step w modInfo published) pgc games) game
   = Some (set_release_date w modInfo published game
            (case map_of pgc game of None \<Rightarrow> empty_game | Some g \<Rightarrow> g))"
proof (induction games rule: rev_induct)
  case Nil
  then show ?case by simp
next
  case (snoc x xs)
  show ?case
  proof (cases "x = game")
    case True
    show ?thesis
    proof (cases "game \<in> set xs")
      case True
      with snoc.IH \<open>x = game\<close> show ?thesis
        by (simp add: release_date_step_map_of set_release_date_idem)
    next
      case False
      with \<open>x = game\<close> show ?thesis
        by (simp add: release_date_step_map_of release_date_loop_other)
    qed
  next
    case False
    with snoc show ?thesis
      by (simp add: release_date_step_map_of)
  qed
qed

subsection \<open>Serialisation\<close>

lemma stringify_None [simp]: "stringify v = None \<longleftrightarrow> v = JUndefined"
  by (cases v) simp_all

lemma roundtrip_JUndefined [simp]: "roundtrip v = JUndefined \<longleftrightarrow> v = JUndefined"
  by (cases v) simp_all

lemma stringify_roundtrip: "stringify (roundtrip v) = stringify v"
proof (induction v)
  case (JArr xs)
  have eq: "map (\<lambda>x. element_text (stringify (element_back (roundtrip x)))) xs
            = map (\<lambda>x. element_text (stringify x)) xs"
  proof (rule map_cong [OF refl])
    fix x assume "x \<in> set xs"
    with JArr have "stringify (roundtrip x) = stringify x" by simp
    then show "element_text (stringify (element_back (roundtrip x)))
               = element_text (stringify x)"
      by (cases "x = JUndefined") (simp_all add: element_back_def element_text_def)
  qed
  show ?case by (simp add: comp_def eq)
next
  case (JObj kvs)
  have ih: "\<forall>p\<in>set kvs. stringify (roundtrip (snd p)) = stringify (snd p)"
  proof
    fix p assume m: "p \<in> set kvs"
    have "snd p \<in> Basic_BNFs.snds p"
      by (cases p) simp
    from JObj [OF m this] show "stringify (roundtrip (snd p)) = stringify (snd p)" .
  qed
  have "concat (map property_text (map (map_prod id stringify)
          (filter (\<lambda>p. snd p \<noteq> JUndefined) (map (map_prod id roundtrip) kvs))))
        = concat (map property_text (map (map_prod id stringify) kvs))"
    using ih
  proof (induction kvs)
    case Nil
    show ?case by simp
  next
    case (Cons p ps)
    then show ?case
      by (cases p; cases "snd p = JUndefined") (simp_all add: property_text_def)
  qed
  then show ?case by simp
qed simp_all

lemma roundtrip_stamped:
  "delete_prop (roundtrip (stamp w (data_json d))) ''lastUpdated'' = roundtrip (data_json d)
   \<and> roundtrip (stamp w (data_json d)) \<noteq> JNull"
  by (simp add: stamp_def set_prop_def delete_prop_def data_json_def)

lemma second_run:
  "diff_and_write w' False (data_json d)
     (file_after file (Some (stamp w (data_json d))))
   = Inr (None, [Log ''mods.json would be unchanged, not updating the file''])"
  using roundtrip_stamped [of w d] stringify_roundtrip [of "data_json d"]
  by (simp add: diff_and_write_def file_after_def)


lemma stamp_data_json:
  "get_prop (stamp w (data_json d)) ''lastUpdated'' = Inr (JStr (now w))
   \<and> delete_prop (stamp w (data_json d)) ''lastUpdated'' = data_json d"
  by (simp add: stamp_def set_prop_def get_prop_def delete_prop_def data_json_def)

subsection \<open>The metadata asset and the version of a texture pack\<close>

lemma release_loop_without_ignore_versions:
  "ignore_versions modInfo = None \<Longrightarrow>
   \<exists>out'. release_loop w lintMode modName modInfo (msi, out) modReleases = Inr (msi, out')"
  by (induction modReleases arbitrary: out) (simp_all add: process_release_def Let_def)

lemma asset_loop_metadata:
  "snd (asset_loop nv as) = None
   \<longleftrightarrow> (\<forall>a\<in>set as. toLowerCase (name a) \<noteq> ''metadata.json'')"
proof (induction as rule: rev_induct)
  case Nil
  show ?case by (simp add: asset_loop_def)
next
  case (snoc a as)
  then show ?case
    by (cases "asset_loop nv as")
       (auto simp: asset_loop_snoc classify_asset_def startsWith_def)
qed

lemma missing_metadata_aborts:
  assumes "semver_valid (clean_tag (tag_name release))"
      and "ignore_versions modInfo = Some rules"
      and "\<forall>rule\<in>set rules. \<not> rule_matches rule (clean_tag (tag_name release))
                             \<and> rule_is_version rule"
      and "\<forall>a\<in>set (assets release). toLowerCase (name a) \<noteq> ''metadata.json''"
  shows "process_release w lintMode modName modInfo (msi, out) release
         = Inl (ExitWithError (''Could not find 'metadata.json' asset in '' @ modName @ '':''
                  @ clean_tag (tag_name release)))"
proof -
  have none: "ignore_loop modName (clean_tag (tag_name release)) rules = Inr None"
    using assms(1,3) by (rule ignore_loop_none)
  from assms(4) have "snd (asset_loop (newVersion (clean_tag (tag_name release)) release)
                         (assets release)) = None"
    by (simp add: asset_loop_metadata)
  with none assms(1,2) show ?thesis
    by (auto simp: process_release_def add_version_def fetch_metadata_def Let_def
             split: prod.splits)
qed

lemma tp_version_has_no_assets:
  "\<exists>kvs. foldl tp_classify_asset (tp_newVersion tag release) as = JObj kvs
         \<and> map_of kvs ''assets'' = None"
proof (induction as rule: rev_induct)
  case Nil
  show ?case by (simp add: tp_newVersion_def)
next
  case (snoc a as)
  then show ?case
    by (auto simp: tp_classify_asset_def set_prop_def update_conv')
qed

lemma tp_add_version_throws:
  "tp_add_version modName release tag st
   = Inl (Uncaught ''TypeError: Cannot read properties of undefined (reading 'downloadUrl')'')"
proof -
  obtain kvs where "foldl tp_classify_asset (tp_newVersion tag release) (assets release) = JObj kvs"
    and "map_of kvs ''assets'' = None"
    using tp_version_has_no_assets by blast
  then show ?thesis
    by (cases st) (simp add: tp_add_version_def get_prop_def apostrophe_def)
qed

subsection \<open>Arguments\<close>

text \<open>
  C9. Lint mode is on exactly when the first argument is the string \<^verbatim>\<open>lint\<close>. The line
  \<^verbatim>\<open>lint mode enabled\<close> is printed whenever there is an argument. With a first argument
  other than \<^verbatim>\<open>lint\<close> the run is a full one: the releases are listed and read, and the
  catalog is written when there is no file yet.
\<close>

theorem lint_mode_iff_first_argument_is_lint:
  "(fst (parse_args args) \<longleftrightarrow> (\<exists>rest. args = ''lint'' # rest))
   \<and> snd (parse_args args) = (if args = [] then [] else [Log ''lint mode enabled''])
   \<and> (\<forall>a rest. args = a # rest \<and> a \<noteq> ''lint'' \<longrightarrow>
         poll_releases w (fst (parse_args args)) modName modInfo st
           = (case listReleases w (template (repo_owner modInfo))
                     (template (repo_name modInfo)) of
                Inl e \<Rightarrow> Inl e
              | Inr modReleases \<Rightarrow> release_loop w False modName modInfo st modReleases)
         \<and> diff_and_write w (fst (parse_args args)) d Absent = Inr (Some (stamp w d), []))"
  by (cases args) (auto simp: parse_args_def poll_releases_def diff_and_write_def)

theorem lint_mode_iff_first_argument_is_lint_witness:
  "\<not> fst (parse_args [''check''])
   \<and> snd (parse_args [''check'']) = [Log ''lint mode enabled'']
   \<and> diff_and_write (scenario_world [] scenario_metadata) (fst (parse_args [''check'']))
        (JObj []) Absent
      = Inr (Some (stamp (scenario_world [] scenario_metadata) (JObj [])), [])"
  using lint_mode_iff_first_argument_is_lint
    [of "[''check'']" "scenario_world [] scenario_metadata" "''foo''" scenario_entry
        "(init_modSourceInfo scenario_entry, [])" "JObj []"]
  by (simp add: parse_args_def)

subsection \<open>Tags\<close>

text \<open>
  C8. One leading \<^verbatim>\<open>v\<close> is removed from a tag and a tag without it is unchanged. When the
  result is no semantic version, the release leaves the record of the mod as it was, an
  error line is logged, and the loop goes on with the remaining releases; the loop over
  the releases of a texture pack does the same.
\<close>

theorem tag_normalization_and_invalid_version_skip:
  "clean_tag (CHR ''v'' # t) = t
   \<and> (\<not> startsWith tag ''v'' \<longrightarrow> clean_tag tag = tag)
   \<and> (\<not> semver_valid (clean_tag (tag_name release)) \<longrightarrow>
        process_release w lintMode modName modInfo (modSourceInfo, out) release
          = Inr (modSourceInfo,
                 out @ [Error (modName @ '':'' @ clean_tag (tag_name release)
                          @ '' is not a valid semantic version, skipping'')])
        \<and> release_loop w lintMode modName modInfo (modSourceInfo, out) (release # rest)
          = release_loop w lintMode modName modInfo
              (modSourceInfo,
               out @ [Error (modName @ '':'' @ clean_tag (tag_name release)
                        @ '' is not a valid semantic version, skipping'')]) rest
        \<and> tp_release_loop modName modInfo (pack, out) (release # rest)
          = tp_release_loop modName modInfo
              (pack,
               out @ [Error (modName @ '':'' @ clean_tag (tag_name release)
                        @ '' is not a valid semantic version, skipping'')]) rest)"
  by (simp add: clean_tag_def startsWith_def substring_def process_release_def
                tp_process_release_def)

theorem tag_normalization_and_invalid_version_skip_witness:
  "\<not> semver_valid (clean_tag (tag_name (scenario_release\<lparr>tag_name := ''vnext''\<rparr>)))
   \<and> \<not> startsWith ''1.0.0'' ''v''
   \<and> clean_tag ''1.0.0'' = ''1.0.0''
   \<and> process_release (scenario_world [] scenario_metadata) False ''foo'' scenario_entry
        (init_modSourceInfo scenario_entry, []) (scenario_release\<lparr>tag_name := ''vnext''\<rparr>)
      = Inr (init_modSourceInfo scenario_entry,
             [Error ''foo:next is not a valid semantic version, skipping''])"
proof -
  have invalid: "\<not> semver_valid (clean_tag (tag_name (scenario_release\<lparr>tag_name := ''vnext''\<rparr>)))"
    by code_simp
  have cleaned: "clean_tag (tag_name (scenario_release\<lparr>tag_name := ''vnext''\<rparr>)) = ''next''"
    by code_simp
  have plain: "\<not> startsWith ''1.0.0'' ''v''"
    by code_simp
  from tag_normalization_and_invalid_version_skip
         [of "''next''" "''1.0.0''" "scenario_release\<lparr>tag_name := ''vnext''\<rparr>"
             "scenario_world [] scenario_metadata" False "''foo''" scenario_entry
             "init_modSourceInfo scenario_entry" "[]" "[]"
             "init_texturePackInfo scenario_entry"]
       invalid cleaned plain
  show ?thesis by simp
qed

subsection \<open>Assets\<close>

text \<open>
  C2, as the code has it. An asset belongs to a platform when its lower-cased name starts
  with \<^verbatim>\<open>windows-\<close>, \<^verbatim>\<open>linux-\<close> or \<^verbatim>\<open>macos-\<close>. In the version that a release adds to the mod,
  each platform holds the URL and the download count of the last asset of the release's
  list that belongs to it, and \<^verbatim>\<open>null\<close> and 0 when there is none: the loop assigns at every
  match and never leaves early.
\<close>

theorem platform_slot_from_last_matching_asset:
  assumes "add_version w lintMode modName modInfo release tag (msi, out) = Inr (msi', out')"
      and "versions msi' = versions msi @ [nv]"
  shows "windows (v_assets nv)
           = map_option browser_download_url (last_with_prefix ''windows-'' (assets release))
         \<and> windows (assetDownloadCounts nv)
           = (case last_with_prefix ''windows-'' (assets release) of
                None \<Rightarrow> 0 | Some a \<Rightarrow> download_count a)
         \<and> linux (v_assets nv)
           = map_option browser_download_url (last_with_prefix ''linux-'' (assets release))
         \<and> linux (assetDownloadCounts nv)
           = (case last_with_prefix ''linux-'' (assets release) of
                None \<Rightarrow> 0 | Some a \<Rightarrow> download_count a)
         \<and> macos (v_assets nv)
           = map_option browser_download_url (last_with_prefix ''macos-'' (assets release))
         \<and> macos (assetDownloadCounts nv)
           = (case last_with_prefix ''macos-'' (assets release) of
                None \<Rightarrow> 0 | Some a \<Rightarrow> download_count a)"
proof -
  let ?nv0 = "fst (asset_loop (newVersion tag release) (assets release))"
  from accepted_version [OF assms] have
    "v_assets nv = v_assets ?nv0 \<and> assetDownloadCounts nv = assetDownloadCounts ?nv0"
    by (auto split: option.splits)
  then show ?thesis
    by (simp add: asset_loop_windows asset_loop_linux asset_loop_macos newVersion_def
             split: option.splits)
qed

theorem platform_slot_from_last_matching_asset_witness:
  "add_version (scenario_world [two_windows_release] scenario_metadata) False ''foo''
     scenario_listed two_windows_release ''1.0.0'' (init_modSourceInfo scenario_listed, [])
   = Inr (scenario_result ''2024-01-01T00:00:00Z'' [two_windows_version], [])
   \<and> versions (scenario_result ''2024-01-01T00:00:00Z'' [two_windows_version])
     = versions (init_modSourceInfo scenario_listed) @ [two_windows_version]
   \<and> map_option browser_download_url (last_with_prefix ''windows-'' (assets two_windows_release))
     = Some ''https://example.org/second.zip''
   \<and> windows (v_assets two_windows_version) = Some ''https://example.org/second.zip''
   \<and> windows (assetDownloadCounts two_windows_version) = 2
   \<and> linux (v_assets two_windows_version) = None"
proof -
  have run:
    "add_version (scenario_world [two_windows_release] scenario_metadata) False ''foo''
       scenario_listed two_windows_release ''1.0.0'' (init_modSourceInfo scenario_listed, [])
     = Inr (scenario_result ''2024-01-01T00:00:00Z'' [two_windows_version], [])"
    by code_simp
  have appended:
    "versions (scenario_result ''2024-01-01T00:00:00Z'' [two_windows_version])
     = versions (init_modSourceInfo scenario_listed) @ [two_windows_version]"
    by (simp add: scenario_result_def init_modSourceInfo_def)
  have last: "map_option browser_download_url
                (last_with_prefix ''windows-'' (assets two_windows_release))
              = Some ''https://example.org/second.zip''"
    by code_simp
  from platform_slot_from_last_matching_asset [OF run appended] run appended last
  show ?thesis
    by (simp add: two_windows_version_def)
qed

text \<open>
  C2, as the specification has it, fails: the release below has two assets for Windows,
  the first one matches the prefix, and the version holds the URL and the count of the
  second.
\<close>

theorem first_matching_asset_does_not_keep_the_slot:
  "process_release (scenario_world [two_windows_release] scenario_metadata) False ''foo''
     scenario_listed (init_modSourceInfo scenario_listed, []) two_windows_release
   = Inr (scenario_result ''2024-01-01T00:00:00Z'' [two_windows_version], [])
   \<and> has_prefix ''windows-'' (assets two_windows_release ! 0)
   \<and> windows (v_assets two_windows_version)
     \<noteq> Some (browser_download_url (assets two_windows_release ! 0))
   \<and> windows (assetDownloadCounts two_windows_version)
     \<noteq> download_count (assets two_windows_release ! 0)"
  by code_simp

subsection \<open>Settings\<close>

text \<open>
  C10. The settings of the version that a release adds are the value of the key
  \<^verbatim>\<open>settings\<close> of its \<^verbatim>\<open>metadata.json\<close> when the document has that key, whatever the value is,
  and the two defaults otherwise. Nothing is merged: with a document that sets
  \<^verbatim>\<open>shareVanillaSaves\<close> only, the version has no \<^verbatim>\<open>decompConfigOverride\<close>.
\<close>

theorem settings_replaced_wholesale:
  assumes "add_version w lintMode modName modInfo release tag (msi, out) = Inr (msi', out')"
      and "versions msi' = versions msi @ [nv]"
      and "fetch_metadata w modName tag
             (snd (asset_loop (newVersion tag release) (assets release))) = Inr data"
  shows "settings nv = (case md_settings data of None \<Rightarrow> default_settings | Some s \<Rightarrow> s)"
proof -
  from accepted_version [OF assms(1,2)] assms(3)
  have "nv = (case md_settings data of
                None \<Rightarrow> fst (asset_loop (newVersion tag release) (assets release))
              | Some s \<Rightarrow> (fst (asset_loop (newVersion tag release) (assets release)))
                           \<lparr>settings := s\<rparr>)
              \<lparr>v_supportedGames := the (md_supportedGames data)\<rparr>"
    by auto
  then show ?thesis
    by (simp add: asset_loop_publishedDate newVersion_def split: option.splits)
qed

theorem settings_replaced_wholesale_witness:
  "add_version (scenario_world [scenario_release] partial_settings_metadata) False ''foo''
     scenario_listed scenario_release ''1.0.0'' (init_modSourceInfo scenario_listed, [])
   = Inr (scenario_result ''2024-01-01T00:00:00Z'' [scenario_version\<lparr>settings := partial_settings\<rparr>], [])
   \<and> fetch_metadata (scenario_world [scenario_release] partial_settings_metadata) ''foo''
       ''1.0.0'' (snd (asset_loop (newVersion ''1.0.0'' scenario_release)
                        (assets scenario_release)))
     = Inr partial_settings_metadata
   \<and> settings (scenario_version\<lparr>settings := partial_settings\<rparr>) = partial_settings
   \<and> get_prop default_settings ''decompConfigOverride'' = Inr (JStr [])
   \<and> get_prop partial_settings ''decompConfigOverride'' = Inr JUndefined"
proof -
  have run:
    "add_version (scenario_world [scenario_release] partial_settings_metadata) False ''foo''
       scenario_listed scenario_release ''1.0.0'' (init_modSourceInfo scenario_listed, [])
     = Inr (scenario_result ''2024-01-01T00:00:00Z'' [scenario_version\<lparr>settings := partial_settings\<rparr>], [])"
    by code_simp
  have appended:
    "versions (scenario_result ''2024-01-01T00:00:00Z'' [scenario_version\<lparr>settings := partial_settings\<rparr>])
     = versions (init_modSourceInfo scenario_listed)
       @ [scenario_version\<lparr>settings := partial_settings\<rparr>]"
    by (simp add: scenario_result_def init_modSourceInfo_def)
  have fetched:
    "fetch_metadata (scenario_world [scenario_release] partial_settings_metadata) ''foo''
       ''1.0.0'' (snd (asset_loop (newVersion ''1.0.0'' scenario_release)
                        (assets scenario_release)))
     = Inr partial_settings_metadata"
    by code_simp
  have missing: "get_prop partial_settings ''decompConfigOverride'' = Inr JUndefined"
    by code_simp
  have default: "get_prop default_settings ''decompConfigOverride'' = Inr (JStr [])"
    by code_simp
  from settings_replaced_wholesale [OF run appended fetched] run fetched missing default
  show ?thesis
    by (simp add: partial_settings_metadata_def)
qed

subsection \<open>Release dates\<close>

text \<open>
  What the code does with the dates of a release that it reads. Every game named by the
  \<^verbatim>\<open>metadata.json\<close> has a stored release date afterwards: the \<^verbatim>\<open>release_date_override\<close> of
  the entry when there is one; else the \<^verbatim>\<open>release_date_override\<close> of the entry's
  \<^verbatim>\<open>per_game_config\<close> for that game when there is one; else the published date of the release
  when no date was stored, and otherwise one of the stored date and the published date,
  namely the earlier of the two when both parse as times.
\<close>

lemma release_date_precedence:
  assumes "add_version w lintMode modName modInfo release tag (msi, out) = Inr (msi', out')"
      and "fetch_metadata w modName tag
             (snd (asset_loop (newVersion tag release) (assets release))) = Inr data"
      and "md_supportedGames data = Some games"
      and "game \<in> set games"
  shows "\<exists>d. stored_date (perGameConfig msi') game = Some d
           \<and> (\<forall>date. release_date_override modInfo = Some date \<longrightarrow> d = date)
           \<and> (\<forall>date. release_date_override modInfo = None \<and> game_override modInfo game = Some date
                  \<longrightarrow> d = date)
           \<and> (release_date_override modInfo = None \<and> game_override modInfo game = None \<longrightarrow>
                (case stored_date (perGameConfig msi) game of
                   None \<Rightarrow> d = published_at release
                 | Some s \<Rightarrow>
                     (d = s \<or> d = published_at release)
                     \<and> (\<forall>a b. Date_parse w s = Some a
                               \<and> Date_parse w (published_at release) = Some b
                               \<longrightarrow> Date_parse w d = Some (min a b))))"
proof -
  let ?nv0 = "fst (asset_loop (newVersion tag release) (assets release))"
  from add_version_Inr [OF assms(1)] assms(2) obtain nv' msi2 where
    a: "apply_metadata w lintMode modName modInfo tag data (?nv0, msi) = Inr (nv', msi2)"
    and m: "msi' = msi2 \<or> msi' = msi2\<lparr>versions := versions msi2 @ [nv']\<rparr>"
    by auto
  have p: "publishedDate ?nv0 = published_at release"
    by (simp add: asset_loop_publishedDate newVersion_def)
  from apply_metadata_Inr [OF a] assms(3) p
  have "perGameConfig msi2
        = foldl (release_date_step w modInfo (published_at release)) (perGameConfig msi) games"
    by auto
  with m have "perGameConfig msi'
        = foldl (release_date_step w modInfo (published_at release)) (perGameConfig msi) games"
    by auto
  with release_date_loop_map_of [OF assms(4)]
  have "map_of (perGameConfig msi') game
        = Some (set_release_date w modInfo (published_at release) game
                 (case map_of (perGameConfig msi) game of
                    None \<Rightarrow> empty_game | Some g \<Rightarrow> g))"
    by simp
  then show ?thesis
    by (auto simp: stored_date_def set_release_date_def empty_game_def num_gt_def min_def
             split: option.splits)
qed

lemma release_date_precedence_example:
  "add_version (scenario_world [scenario_release, earlier_release] scenario_metadata) False
     ''foo'' scenario_listed earlier_release ''0.9.0''
     (scenario_result ''2024-01-01T00:00:00Z'' [scenario_version], [])
   = Inr (scenario_result ''2023-06-01T00:00:00Z'' [scenario_version, earlier_version], [])
   \<and> stored_date (perGameConfig (scenario_result ''2024-01-01T00:00:00Z'' [scenario_version]))
        ''jak1'' = Some ''2024-01-01T00:00:00Z''
   \<and> stored_date
        (perGameConfig
           (scenario_result ''2023-06-01T00:00:00Z'' [scenario_version, earlier_version]))
        ''jak1'' = Some ''2023-06-01T00:00:00Z''
   \<and> scenario_clock ''2023-06-01T00:00:00Z'' = Some (min 1704067200000 1685577600000)"
proof -
  let ?w = "scenario_world [scenario_release, earlier_release] scenario_metadata"
  have run:
    "add_version ?w False ''foo'' scenario_listed earlier_release ''0.9.0''
       (scenario_result ''2024-01-01T00:00:00Z'' [scenario_version], [])
     = Inr (scenario_result ''2023-06-01T00:00:00Z'' [scenario_version, earlier_version], [])"
    by code_simp
  have fetched:
    "fetch_metadata ?w ''foo'' ''0.9.0''
       (snd (asset_loop (newVersion ''0.9.0'' earlier_release) (assets earlier_release)))
     = Inr scenario_metadata"
    by code_simp
  have games: "md_supportedGames scenario_metadata = Some [''jak1'']"
    by (simp add: scenario_metadata_def)
  have before:
    "stored_date (perGameConfig (scenario_result ''2024-01-01T00:00:00Z'' [scenario_version]))
       ''jak1'' = Some ''2024-01-01T00:00:00Z''"
    by code_simp
  have none: "release_date_override scenario_listed = None
              \<and> game_override scenario_listed ''jak1'' = None"
    by code_simp
  have clock: "Date_parse ?w ''2024-01-01T00:00:00Z'' = Some 1704067200000
               \<and> Date_parse ?w (published_at earlier_release) = Some 1685577600000
               \<and> published_at earlier_release = ''2023-06-01T00:00:00Z''"
    by code_simp
  from release_date_precedence [OF run fetched games, of "''jak1''"] before none clock
  have "stored_date
          (perGameConfig
             (scenario_result ''2023-06-01T00:00:00Z'' [scenario_version, earlier_version]))
          ''jak1'' = Some ''2023-06-01T00:00:00Z''
        \<and> Date_parse ?w ''2023-06-01T00:00:00Z'' = Some (min 1704067200000 1685577600000)"
    by auto
  with run before show ?thesis
    by (simp add: scenario_world_def)
qed

text \<open>
  C6. The specification has every game named by a release that is valid and not ignored
  get its release date by that precedence. The code reads a release only inside the block
  that tests for the key \<^verbatim>\<open>ignore_versions\<close>: for a mod without the key the release of the
  scenario is valid, no rule excludes it, and no date is stored for \<^verbatim>\<open>jak1\<close>, neither the
  \<^verbatim>\<open>release_date_override\<close> of the entry nor the published date. With an empty
  \<^verbatim>\<open>ignore_versions\<close> list and nothing else changed, the run stores the override, and the
  published date when there is no override.
\<close>

theorem release_date_not_stored_without_ignore_versions:
  "semver_valid (clean_tag (tag_name scenario_release))
   \<and> ignore_versions (scenario_entry\<lparr>release_date_override := Some ''2020-01-01''\<rparr>) = None
   \<and> mod_stored_date ''foo'' ''jak1''
       (main (scenario_world [scenario_release] scenario_metadata) []
          (Parsed (scenario_config
                     (scenario_entry\<lparr>release_date_override := Some ''2020-01-01''\<rparr>)))
          Absent)
     = Inr None
   \<and> mod_stored_date ''foo'' ''jak1''
       (main (scenario_world [scenario_release] scenario_metadata) []
          (Parsed (scenario_config
                     (scenario_listed\<lparr>release_date_override := Some ''2020-01-01''\<rparr>)))
          Absent)
     = Inr (Some ''2020-01-01'')
   \<and> mod_stored_date ''foo'' ''jak1''
       (main (scenario_world [scenario_release] scenario_metadata) []
          (Parsed (scenario_config scenario_entry)) Absent)
     = Inr None
   \<and> mod_stored_date ''foo'' ''jak1''
       (main (scenario_world [scenario_release] scenario_metadata) []
          (Parsed (scenario_config scenario_listed)) Absent)
     = Inr (Some ''2024-01-01T00:00:00Z'')"
  by code_simp

subsection \<open>Ignore rules\<close>

text \<open>
  C5, as the code has it. For a release whose cleaned tag is a version and a mod with an
  \<^verbatim>\<open>ignore_versions\<close> list: the release is skipped (the mod is unchanged and one line is
  logged) exactly when some rule matches it and every rule before that one is a version;
  the run ends with the exception of \<^verbatim>\<open>semver\<close> exactly when a rule that is no version comes
  before any match; when every rule is a version and none matches, the release is read. A
  rule \<^verbatim>\<open><b\<close> does not match a version equal to \<^verbatim>\<open>b\<close>, and a rule without \<^verbatim>\<open><\<close> matches
  exactly the versions equal to it.
\<close>

theorem ignore_rules_first_match:
  assumes "semver_valid (clean_tag (tag_name release))"
      and "ignore_versions modInfo = Some rules"
  shows "((\<exists>l. process_release w lintMode modName modInfo (msi, out) release
                 = Inr (msi, out @ [Log l])
               \<and> ignore_loop modName (clean_tag (tag_name release)) rules = Inr (Some l))
          \<longleftrightarrow> (\<exists>i<length rules. rule_matches (rules ! i) (clean_tag (tag_name release))
                 \<and> (\<forall>j<i. rule_is_version (rules ! j))))
         \<and> ((\<exists>e. process_release w lintMode modName modInfo (msi, out) release = Inl e
                  \<and> ignore_loop modName (clean_tag (tag_name release)) rules = Inl e)
             \<longleftrightarrow> (\<exists>i<length rules. \<not> rule_is_version (rules ! i)
                    \<and> (\<forall>j<i. rule_is_version (rules ! j)
                             \<and> \<not> rule_matches (rules ! j) (clean_tag (tag_name release)))))
         \<and> ((\<forall>rule\<in>set rules. \<not> rule_matches rule (clean_tag (tag_name release))
                               \<and> rule_is_version rule)
             \<longrightarrow> process_release w lintMode modName modInfo (msi, out) release
                 = add_version w lintMode modName modInfo release
                     (clean_tag (tag_name release)) (msi, out))
         \<and> (\<forall>bound. semver_eq bound (clean_tag (tag_name release)) = Inr True
                \<longrightarrow> \<not> rule_matches (CHR ''<'' # bound) (clean_tag (tag_name release)))
         \<and> (\<forall>rule. \<not> startsWith rule ''<''
                \<longrightarrow> rule_matches rule (clean_tag (tag_name release))
                    = (semver_eq rule (clean_tag (tag_name release)) = Inr True))"
proof -
  let ?tag = "clean_tag (tag_name release)"
  have p: "process_release w lintMode modName modInfo (msi, out) release
           = (case ignore_loop modName ?tag rules of
                Inl e \<Rightarrow> Inl e
              | Inr (Some l) \<Rightarrow> Inr (msi, out @ [Log l])
              | Inr None \<Rightarrow> add_version w lintMode modName modInfo release ?tag (msi, out))"
    using assms by (simp add: process_release_def Let_def)
  have skip: "(\<exists>l. process_release w lintMode modName modInfo (msi, out) release
                     = Inr (msi, out @ [Log l])
                   \<and> ignore_loop modName ?tag rules = Inr (Some l))
              \<longleftrightarrow> (\<exists>l. ignore_loop modName ?tag rules = Inr (Some l))"
    by (auto simp: p)
  have abort: "(\<exists>e. process_release w lintMode modName modInfo (msi, out) release = Inl e
                    \<and> ignore_loop modName ?tag rules = Inl e)
               \<longleftrightarrow> (\<exists>e. ignore_loop modName ?tag rules = Inl e)"
    by (auto simp: p)
  have none: "(\<forall>rule\<in>set rules. \<not> rule_matches rule ?tag \<and> rule_is_version rule)
              \<Longrightarrow> ignore_loop modName ?tag rules = Inr None"
    using assms(1) by (rule ignore_loop_none)
  have bound: "\<forall>bound. semver_eq bound ?tag = Inr True
                 \<longrightarrow> \<not> rule_matches (CHR ''<'' # bound) ?tag"
    by (auto simp: rule_matches_def startsWith_def substring_def dest: semver_eq_not_lt)
  have exact: "\<forall>rule. \<not> startsWith rule ''<''
                 \<longrightarrow> rule_matches rule ?tag = (semver_eq rule ?tag = Inr True)"
    by (simp add: rule_matches_def)
  from none have accepted:
    "(\<forall>rule\<in>set rules. \<not> rule_matches rule ?tag \<and> rule_is_version rule)
     \<longrightarrow> process_release w lintMode modName modInfo (msi, out) release
         = add_version w lintMode modName modInfo release ?tag (msi, out)"
    by (simp add: p)
  show ?thesis
    unfolding skip abort
    using ignore_loop_skip_iff [OF assms(1), of modName rules]
          ignore_loop_abort_iff [OF assms(1), of modName rules]
          accepted bound exact
    by blast
qed

theorem ignore_rules_first_match_witness:
  "semver_valid (clean_tag (tag_name earlier_release))
   \<and> ignore_versions (scenario_entry\<lparr>ignore_versions := Some [''< 1.0.0'', ''1.2.0'']\<rparr>)
     = Some [''< 1.0.0'', ''1.2.0'']
   \<and> rule_matches ([''< 1.0.0'', ''1.2.0''] ! 0) (clean_tag (tag_name earlier_release))
   \<and> (\<exists>l. process_release (scenario_world [earlier_release] scenario_metadata) False ''foo''
              (scenario_entry\<lparr>ignore_versions := Some [''< 1.0.0'', ''1.2.0'']\<rparr>)
              (init_modSourceInfo scenario_listed, []) earlier_release
            = Inr (init_modSourceInfo scenario_listed, [] @ [Log l])
          \<and> ignore_loop ''foo'' (clean_tag (tag_name earlier_release)) [''< 1.0.0'', ''1.2.0'']
            = Inr (Some l))
   \<and> semver_eq ''1.0.0'' (clean_tag (tag_name scenario_release)) = Inr True
   \<and> \<not> rule_matches ''<1.0.0'' (clean_tag (tag_name scenario_release))"
proof -
  let ?entry = "scenario_entry\<lparr>ignore_versions := Some [''< 1.0.0'', ''1.2.0'']\<rparr>"
  have valid: "semver_valid (clean_tag (tag_name earlier_release))"
    by code_simp
  have valid': "semver_valid (clean_tag (tag_name scenario_release))"
    by code_simp
  have rules: "ignore_versions ?entry = Some [''< 1.0.0'', ''1.2.0'']"
    by simp
  have hit: "rule_matches ([''< 1.0.0'', ''1.2.0''] ! 0) (clean_tag (tag_name earlier_release))"
    by code_simp
  then have first:
    "\<exists>i<length [''< 1.0.0'', ''1.2.0''].
        rule_matches ([''< 1.0.0'', ''1.2.0''] ! i) (clean_tag (tag_name earlier_release))
        \<and> (\<forall>j<i. rule_is_version ([''< 1.0.0'', ''1.2.0''] ! j))"
    by (intro exI [of _ 0]) simp
  have same: "semver_eq ''1.0.0'' (clean_tag (tag_name scenario_release)) = Inr True"
    by code_simp
  from ignore_rules_first_match
         [OF valid rules, of "scenario_world [earlier_release] scenario_metadata" False "''foo''"
             "init_modSourceInfo scenario_listed" "[]"] first
  have skipped:
    "\<exists>l. process_release (scenario_world [earlier_release] scenario_metadata) False ''foo''
            ?entry (init_modSourceInfo scenario_listed, []) earlier_release
          = Inr (init_modSourceInfo scenario_listed, [] @ [Log l])
        \<and> ignore_loop ''foo'' (clean_tag (tag_name earlier_release)) [''< 1.0.0'', ''1.2.0'']
          = Inr (Some l)"
    by blast
  from ignore_rules_first_match
         [OF valid' rules, of "scenario_world [earlier_release] scenario_metadata" False "''foo''"
             "init_modSourceInfo scenario_listed" "[]"] same
  have "\<not> rule_matches (CHR ''<'' # ''1.0.0'') (clean_tag (tag_name scenario_release))"
    by blast
  with valid rules hit skipped same show ?thesis
    by simp
qed

text \<open>
  C5, as the specification has it, fails: with the rules \<^verbatim>\<open>latest\<close> and \<^verbatim>\<open>1.0.0\<close> the second
  rule matches the release \<^verbatim>\<open>v1.0.0\<close>, and the release is not skipped: the comparison with
  the first rule throws and the run ends.
\<close>

theorem matching_rule_behind_a_rule_that_is_no_version:
  "semver_valid (clean_tag (tag_name scenario_release))
   \<and> rule_matches ''1.0.0'' (clean_tag (tag_name scenario_release))
   \<and> process_release (scenario_world [scenario_release] scenario_metadata) False ''foo''
       (scenario_entry\<lparr>ignore_versions := Some [''latest'', ''1.0.0'']\<rparr>)
       (init_modSourceInfo scenario_listed, []) scenario_release
     = Inl (Uncaught ''TypeError: Invalid Version: latest'')"
  by code_simp

subsection \<open>Comparing and writing\<close>

text \<open>
  C7. In a full run, with no file on disk or a file that holds a JSON document other than
  \<^verbatim>\<open>null\<close>: the file is written exactly when there is no file or the text of the new catalog
  differs from the text of the document on disk without its \<^verbatim>\<open>lastUpdated\<close>; otherwise
  nothing is written and one line is logged. What is written is the new catalog with \<^verbatim>\<open>lastUpdated\<close> set to the
  current time and nothing else changed. A second run that assembles the same catalog
  finds the file it wrote unchanged and writes nothing.
\<close>

theorem catalog_written_iff_changed:
  assumes "\<not> lintMode"
      and "file = Absent \<or> (\<exists>old. file = Document old \<and> old \<noteq> JNull)"
  shows "diff_and_write w lintMode catalog file
         = Inr (if file = Absent
                   \<or> (\<exists>old. file = Document old
                         \<and> stringify (delete_prop old ''lastUpdated'') \<noteq> stringify catalog)
                then (Some (stamp w catalog), [])
                else (None, [Log ''mods.json would be unchanged, not updating the file'']))
         \<and> get_prop (stamp w (data_json d)) ''lastUpdated'' = Inr (JStr (now w))
         \<and> delete_prop (stamp w (data_json d)) ''lastUpdated'' = data_json d
         \<and> diff_and_write w' lintMode (data_json d)
             (file_after file (Some (stamp w (data_json d))))
           = Inr (None, [Log ''mods.json would be unchanged, not updating the file''])"
proof -
  from assms have first:
    "diff_and_write w lintMode catalog file
     = Inr (if file = Absent
               \<or> (\<exists>old. file = Document old
                     \<and> stringify (delete_prop old ''lastUpdated'') \<noteq> stringify catalog)
            then (Some (stamp w catalog), [])
            else (None, [Log ''mods.json would be unchanged, not updating the file'']))"
    by (auto simp: diff_and_write_def)
  from assms(1) second_run [of w' d "file" w] have again:
    "diff_and_write w' lintMode (data_json d)
       (file_after file (Some (stamp w (data_json d))))
     = Inr (None, [Log ''mods.json would be unchanged, not updating the file''])"
    by simp
  from first again stamp_data_json [of w d] show ?thesis
    by blast
qed

theorem catalog_written_iff_changed_witness:
  "stringify (delete_prop old_document ''lastUpdated'') \<noteq> stringify (data_json empty_catalog)
   \<and> diff_and_write (scenario_world [] scenario_metadata) False (data_json empty_catalog)
       (Document old_document)
     = Inr (Some (stamp (scenario_world [] scenario_metadata) (data_json empty_catalog)), [])
   \<and> get_prop (stamp (scenario_world [] scenario_metadata) (data_json empty_catalog))
       ''lastUpdated'' = Inr (JStr ''2024-02-02T00:00:00.000Z'')
   \<and> diff_and_write (scenario_world [] scenario_metadata) False (data_json empty_catalog)
       (file_after (Document old_document)
          (Some (stamp (scenario_world [] scenario_metadata) (data_json empty_catalog))))
     = Inr (None, [Log ''mods.json would be unchanged, not updating the file''])"
proof -
  let ?w = "scenario_world [] scenario_metadata"
  have differs:
    "stringify (delete_prop old_document ''lastUpdated'') \<noteq> stringify (data_json empty_catalog)"
    by code_simp
  have full: "\<not> False"
    by simp
  have readable: "Document old_document = Absent
                  \<or> (\<exists>old. Document old_document = Document old \<and> old \<noteq> JNull)"
    by (simp add: old_document_def)
  have clock: "now ?w = ''2024-02-02T00:00:00.000Z''"
    by (simp add: scenario_world_def)
  from catalog_written_iff_changed
         [OF full readable, of ?w "data_json empty_catalog" empty_catalog ?w]
       differs clock
  show ?thesis
    by auto
qed

subsection \<open>Mods without an ignore list\<close>

text \<open>
  C1. The specification has the scenario (no \<^verbatim>\<open>ignore_versions\<close>, one release \<^verbatim>\<open>v1.0.0\<close> with
  a Windows asset and a \<^verbatim>\<open>metadata.json\<close> naming \<^verbatim>\<open>jak1\<close>) end with one version \<^verbatim>\<open>1.0.0\<close>
  for the mod. The code ends without error and stores no version: the lines that build
  the version are inside the block that tests for the key \<^verbatim>\<open>ignore_versions\<close>, and a mod
  without that key keeps the versions it had whatever its releases are
  (\<open>release_loop_without_ignore_versions\<close>). With an empty \<^verbatim>\<open>ignore_versions\<close> list and
  nothing else changed, the run stores the version that the specification describes.
\<close>

theorem scenario_without_ignore_versions_has_no_version:
  "mod_versions ''foo''
     (main (scenario_world [scenario_release] scenario_metadata) []
        (Parsed (scenario_config scenario_entry)) Absent)
   = Inr (Some [])
   \<and> mod_versions ''foo''
       (main (scenario_world [scenario_release] scenario_metadata) []
          (Parsed (scenario_config scenario_listed)) Absent)
     = Inr (Some [scenario_version])"
  by code_simp

text \<open>
  C4. The specification has a release with a valid version, not excluded by a rule and
  without an asset \<^verbatim>\<open>metadata.json\<close>, end the run with an error that names the mod and the
  version. For a mod without \<^verbatim>\<open>ignore_versions\<close> the code leaves the release out and goes
  on, with no error and no line logged; with an empty list the same release ends the run
  with that error (\<open>missing_metadata_aborts\<close> has the general statement).
\<close>

theorem release_without_metadata_is_skipped_without_ignore_versions:
  "semver_valid (clean_tag (tag_name bare_release))
   \<and> ignore_versions scenario_entry = None
   \<and> process_release (scenario_world [bare_release] scenario_metadata) False ''foo''
       scenario_entry (init_modSourceInfo scenario_entry, []) bare_release
     = Inr (init_modSourceInfo scenario_entry, [])
   \<and> mod_versions ''foo''
       (main (scenario_world [bare_release] scenario_metadata) []
          (Parsed (scenario_config scenario_entry)) Absent)
     = Inr (Some [])
   \<and> mod_versions ''foo''
       (main (scenario_world [bare_release] scenario_metadata) []
          (Parsed (scenario_config scenario_listed)) Absent)
     = Inl (ExitWithError ''Could not find 'metadata.json' asset in foo:1.0.0'')"
  by code_simp

subsection \<open>Texture packs without an archive\<close>

text \<open>
  C3. The specification has a texture-pack release that is not ignored and has no asset
  \<^verbatim>\<open>assets.zip\<close> left out with a line logged, and the run go on. The code reads
  \<^verbatim>\<open>newVersion.assets.downloadUrl\<close>, the version object has no \<^verbatim>\<open>assets\<close>, and the read
  throws: the run ends with a \<^verbatim>\<open>TypeError\<close> (\<open>tp_add_version_throws\<close>: for every release
  that reaches the test).
\<close>

theorem texture_pack_release_throws:
  "semver_valid (clean_tag (tag_name bare_release))
   \<and> ignore_loop ''pack'' (clean_tag (tag_name bare_release)) [] = Inr None
   \<and> tp_process_release ''pack'' scenario_listed (init_texturePackInfo scenario_listed, [])
       bare_release
     = Inl (Uncaught ''TypeError: Cannot read properties of undefined (reading 'downloadUrl')'')
   \<and> main (scenario_world [bare_release] scenario_metadata) []
       (Parsed ((scenario_config scenario_listed)
                  \<lparr>mods := Some [], texture_packs := Some [(''pack'', scenario_listed)]\<rparr>))
       Absent
     = Inl (Uncaught ''TypeError: Cannot read properties of undefined (reading 'downloadUrl')'')"
  by code_simp

end
